theory Spec2Isabelle
  imports Main
begin

section \<open>Values of the evaluator (check-error.js)\<close>

text \<open>
  A value thrown by the browser library and caught by the evaluator: the code reads its
  \<open>message\<close> and its \<open>stack\<close>; a stack that is undefined is \<open>None\<close>.
\<close>

record js_error =
  err_message :: string
  err_stack :: "string option"

text \<open>
  What the page threw, as the \<open>pageerror\<close> listener receives it: \<open>null\<close> or
  \<open>undefined\<close>, on which reading a property throws a TypeError, or any other value, given
  by what its properties \<open>message\<close> and \<open>stack\<close> read as (\<open>None\<close>: undefined, as for a
  thrown string or an object without the property).
\<close>

datatype js_value = Nullish | Value "string option" "string option"

text \<open>
  One entry of the arrays \<open>errors\<close>, \<open>consoleErrors\<close> and of \<open>result.errors\<close>: the object
  literals \<open>{type, message, stack}\<close> (lines 31 and 82) and \<open>{type, message}\<close> (line 41).
  A property that is absent or undefined is \<open>None\<close>.
\<close>

record observed_error =
  etype :: string
  emessage :: "string option"
  estack :: "string option"

text \<open>
  The object the function resolves to. The property \<open>errors\<close> is absent from the literals
  of lines 13 and 70-73: \<open>None\<close>.
\<close>

record result =
  success :: bool
  message :: string
  errors :: "observed_error list option"

text \<open>
  How a call of the function fails: its promise rejects, or the process dies inside a
  listener before the promise settles.
\<close>

datatype failure = Rejected js_error | Killed

text \<open>A console message of the page: \<open>msg.type()\<close> and \<open>msg.text()\<close>.\<close>

record console_message =
  msg_type :: string
  msg_text :: string

text \<open>What the page emits: the events \<open>pageerror\<close> and \<open>console\<close>.\<close>

datatype page_event = PageError js_value | Console console_message

text \<open>
  An argument of \<open>console.log\<close> / \<open>console.error\<close>: a string, \<open>undefined\<close>, an error
  object, or the text \<open>JSON.stringify(result, null, 2)\<close>, kept as the result it prints.
\<close>

datatype arg = Str string | Undefined | Err js_error | Json result

text \<open>
  The effects of the program, in the order they happen: writes to the two streams, the
  calls into the browser library, and the exit of the process.
\<close>

datatype effect =
    ConsoleLog "arg list"
  | ConsoleError "arg list"
  | StderrWrite string
  | Launch
  | NewPage
  | PageOn string
  | Goto string string nat
  | SetTimeout nat
  | Close
  | Exit nat

text \<open>
  The world outside the program. An awaited call yields while the browser works, so page
  events may be delivered before it settles: such a call is the list of events delivered
  during the wait and the rejection, if any (\<open>None\<close>: the promise resolves).
\<close>

record world =
  existsSync :: "string \<Rightarrow> bool"
  resolve :: "string \<Rightarrow> string"
  launch :: "js_error option"
  newPage :: "js_error option"
  goto :: "string \<Rightarrow> page_event list \<times> js_error option"
  timeout_events :: "page_event list"
  close :: "page_event list \<times> js_error option"

text \<open>
  The mutable state of one call: the two arrays, the listeners registered on the page, the
  effects so far, and whether a listener has thrown (the process is dead: nothing runs
  any more).
\<close>

record state =
  st_errors :: "observed_error list"
  st_consoleErrors :: "observed_error list"
  st_listeners :: "string list"
  st_trace :: "effect list"
  st_killed :: bool

section \<open>Strings\<close>

text \<open>Whether the string begins with the search string; \<open>includes\<close> tries it at each position.\<close>

fun startsWith :: "string \<Rightarrow> string \<Rightarrow> bool" where
  "startsWith s [] = True"
| "startsWith [] (c # t) = False"
| "startsWith (d # s) (c # t) = (d = c \<and> startsWith s t)"

text \<open>\<open>String.prototype.includes\<close> (a keyword here, hence the suffix): the search string occurs
  at some position of the string.\<close>

fun includes_str :: "string \<Rightarrow> string \<Rightarrow> bool" where
  "includes_str [] t = (t = [])"
| "includes_str (d # s) t = (startsWith (d # s) t \<or> includes_str s t)"

text \<open>The decimal text of a length, as a template literal prints it.\<close>

function toString :: "nat \<Rightarrow> string" where
  "toString n =
     (if n < 10 then [''0123456789'' ! n]
      else toString (n div 10) @ [''0123456789'' ! (n mod 10)])"
  by pat_completeness auto
termination
  by (relation "measure id") auto

section \<open>The listeners\<close>

definition log :: "effect \<Rightarrow> state \<Rightarrow> state" where
  "log e st = st\<lparr>st_trace := st_trace st @ [e]\<rparr>"

text \<open>\<open>page.on(name, handler)\<close>.\<close>

definition page_on :: "string \<Rightarrow> state \<Rightarrow> state" where
  "page_on name st = (log (PageOn name) st)\<lparr>st_listeners := st_listeners st @ [name]\<rparr>"

text \<open>
  Lines 29-32. Line 30 reads \<open>err.message\<close> first, with no guard: on \<open>null\<close> or
  \<open>undefined\<close> that read throws inside the listener, outside every \<open>try\<close>, and the
  process dies before anything is written or pushed.
\<close>

fun on_pageerror :: "js_value \<Rightarrow> state \<Rightarrow> state" where
  "on_pageerror Nullish st = st\<lparr>st_killed := True\<rparr>"
| "on_pageerror (Value m s) st =
     (let st1 = log (ConsoleError [Str ''Page error (uncaught exception):'',
                                   (case m of None \<Rightarrow> Undefined | Some t \<Rightarrow> Str t)]) st
      in st1\<lparr>st_errors := st_errors st1 @
               [\<lparr>etype = ''pageerror'', emessage = m, estack = s\<rparr>]\<rparr>)"

text \<open>Lines 35-48.\<close>

definition on_console :: "console_message \<Rightarrow> state \<Rightarrow> state" where
  "on_console msg st =
     (let text = msg_text msg in
      if msg_type msg = ''error'' then
        (if \<not> includes_str text ''Failed to load resource'' then
           (let st1 = log (StderrWrite (''Console error: '' @ text @ [CHR 0x0A])) st
            in st1\<lparr>st_consoleErrors := st_consoleErrors st1 @
                     [\<lparr>etype = ''console.error'', emessage = Some text, estack = None\<rparr>]\<rparr>)
         else st)
      else if msg_type msg = ''warning'' then
        log (StderrWrite (''Console warning: '' @ text @ [CHR 0x0A])) st
      else if msg_type msg = ''log'' then
        log (StderrWrite (''Console log: '' @ text @ [CHR 0x0A])) st
      else st)"

text \<open>
  An event reaches the handler registered for it, and nobody when none is, or when the
  process is dead.
\<close>

fun deliver :: "page_event \<Rightarrow> state \<Rightarrow> state" where
  "deliver (PageError v) st =
     (if \<not> st_killed st \<and> ''pageerror'' \<in> set (st_listeners st)
      then on_pageerror v st else st)"
| "deliver (Console msg) st =
     (if \<not> st_killed st \<and> ''console'' \<in> set (st_listeners st)
      then on_console msg st else st)"

definition deliver_all :: "page_event list \<Rightarrow> state \<Rightarrow> state" where
  "deliver_all evs st = fold deliver evs st"

section \<open>evaluateP5Sketch\<close>

text \<open>
  The \<open>try\<close> block, lines 20-75: what it completes with (\<open>Inl (Rejected e)\<close>: a throw,
  \<open>Inr\<close>: the value of its \<open>return\<close>, \<open>Inl Killed\<close>: the process died while a call was
  awaited), whether \<open>browser\<close> has been assigned, and the state.
\<close>

definition try_block :: "world \<Rightarrow> string \<Rightarrow> state \<Rightarrow> (failure + result) \<times> bool \<times> state" where
  "try_block w fileUrl st0 =
     (let st1 = log Launch st0 in
      case launch w of
        Some e \<Rightarrow> (Inl (Rejected e), False, st1)
      | None \<Rightarrow>
          (let st2 = log NewPage st1 in
           case newPage w of
             Some e \<Rightarrow> (Inl (Rejected e), True, st2)
           | None \<Rightarrow>
               (let st3 = page_on ''pageerror'' st2;
                    st4 = page_on ''console'' st3;
                    st5 = deliver_all (fst (goto w fileUrl))
                            (log (Goto fileUrl ''domcontentloaded'' 30000) st4)
                in if st_killed st5 then (Inl Killed, True, st5)
                   else case snd (goto w fileUrl) of
                     Some e \<Rightarrow> (Inl (Rejected e), True, st5)
                   | None \<Rightarrow>
                       (let st6 = deliver_all (timeout_events w) (log (SetTimeout 5000) st5);
                            allErrors = st_errors st6 @ st_consoleErrors st6
                        in if st_killed st6 then (Inl Killed, True, st6)
                           else if length allErrors > 0 then
                             (Inr \<lparr>success = False, message = ''Runtime errors detected.'',
                                   errors = Some allErrors\<rparr>,
                              True,
                              log (ConsoleLog [Str (''Evaluation complete: Found '' @
                                     toString (length allErrors) @ '' runtime errors.'')]) st6)
                           else
                             (Inr \<lparr>success = True, message = ''No runtime errors detected.'',
                                   errors = None\<rparr>,
                              True,
                              log (ConsoleLog
                                [Str ''Evaluation complete: No runtime errors detected.'']) st6)))))"

text \<open>The \<open>catch\<close> block, lines 76-83.\<close>

definition catch_block :: "js_error \<Rightarrow> state \<Rightarrow> result \<times> state" where
  "catch_block error st =
     (\<lparr>success = False,
       message = ''Puppeteer or navigation error: '' @ err_message error,
       errors = Some [\<lparr>etype = ''puppeteer_error'', emessage = Some (err_message error),
                       estack = err_stack error\<rparr>]\<rparr>,
      log (ConsoleError [Str ''Puppeteer or navigation error:'', Err error]) st)"

text \<open>
  The \<open>finally\<close> block, lines 84-89: a rejection of \<open>browser.close()\<close> replaces the
  completion of the \<open>try\<close>/\<open>catch\<close>; the listeners are still attached while it is awaited.
\<close>

definition finally_block :: "world \<Rightarrow> bool \<Rightarrow> state \<Rightarrow> failure option \<times> state" where
  "finally_block w browser st =
     (if browser then
        (let st1 = deliver_all (fst (close w)) (log Close st)
         in (if st_killed st1 then Some Killed else map_option Rejected (snd (close w)), st1))
      else (None, st))"

text \<open>
  After the \<open>try\<close>/\<open>catch\<close> has completed with a result to return, the \<open>finally\<close>
  block runs and the function settles: with that result, unless the block failed.
\<close>

definition settle :: "world \<Rightarrow> bool \<Rightarrow> result \<times> state \<Rightarrow> (failure + result) \<times> effect list" where
  "settle w browser c =
     (let (thrown, st3) = finally_block w browser (snd c)
      in (case thrown of Some f \<Rightarrow> Inl f | None \<Rightarrow> Inr (fst c), st_trace st3))"

text \<open>
  The function: \<open>Inr\<close> the result its promise resolves to, \<open>Inl (Rejected e)\<close> when the
  promise rejects, \<open>Inl Killed\<close> when the process died first; and the effects of the call.
  After the death of the process neither \<open>catch\<close> nor \<open>finally\<close> runs.
\<close>

definition evaluateP5Sketch :: "world \<Rightarrow> string \<Rightarrow> (failure + result) \<times> effect list" where
  "evaluateP5Sketch w htmlFilePath =
     (if \<not> existsSync w htmlFilePath then
        (Inr \<lparr>success = False, message = ''HTML file not found: '' @ htmlFilePath,
              errors = None\<rparr>,
         [ConsoleError [Str (''Error: HTML file not found at '' @ htmlFilePath)]])
      else
        (let fileUrl = ''file://'' @ resolve w htmlFilePath;
             st0 = \<lparr>st_errors = [], st_consoleErrors = [], st_listeners = [],
                    st_trace = [ConsoleLog [Str (''Evaluating P5.js sketch from: '' @ fileUrl)]],
                    st_killed = False\<rparr>;
             (r, browser, st1) = try_block w fileUrl st0
         in case r of
              Inl Killed \<Rightarrow> (Inl Killed, st_trace st1)
            | Inl (Rejected error) \<Rightarrow> settle w browser (catch_block error st1)
            | Inr v \<Rightarrow> settle w browser (v, st1)))"

section \<open>The command line\<close>

text \<open>
  Lines 93-115, run as the main module with the argument vector \<open>argv\<close>: the exit code and
  the effects. \<open>process.argv[2]\<close> is falsy when it is absent and when it is the empty string.
  When the process died inside a listener no handler of the program runs: the runtime
  reports the uncaught TypeError and exits with code 1.
\<close>

definition main :: "world \<Rightarrow> string list \<Rightarrow> nat \<times> effect list" where
  "main w argv =
     (let htmlFilePath = (if 2 < length argv then Some (argv ! 2) else None) in
      case htmlFilePath of
        None \<Rightarrow>
          (1, [ConsoleError [Str ''Usage: node index.js <path/to/your/p5_sketch.html>''], Exit 1])
      | Some p \<Rightarrow>
          if p = [] then
            (1, [ConsoleError [Str ''Usage: node index.js <path/to/your/p5_sketch.html>''], Exit 1])
          else
            (case evaluateP5Sketch w p of
               (Inr res, tr) \<Rightarrow>
                 (let tr1 = tr @ [ConsoleLog [Str (CHR 0x0A # ''--- Final Evaluation Result ---'')],
                                  ConsoleLog [Json res]]
                  in if \<not> success res then (1, tr1 @ [Exit 1]) else (0, tr1 @ [Exit 0]))
             | (Inl (Rejected err), tr) \<Rightarrow>
                 (1, tr @ [ConsoleError [Str ''Unhandled error during evaluation:'', Err err],
                           Exit 1])
             | (Inl Killed, tr) \<Rightarrow> (1, tr @ [Exit 1])))"

section \<open>The sequences of the specification\<close>

text \<open>
  The definitions of this section do not come from the code: they say, in the words of the
  specification (sections 4.2 and 6), what each channel is to collect and what is to be
  passed to the diagnostic stream. The lemmas \<open>deliver_all_errors\<close>,
  \<open>deliver_all_consoleErrors\<close> and \<open>deliver_all_stderr\<close> below compare them with what the
  handlers of the source do.

  The events observed by a run that navigates: those delivered while \<open>page.goto\<close> is
  awaited, then those delivered during the five seconds.
\<close>

definition observed :: "world \<Rightarrow> string \<Rightarrow> page_event list" where
  "observed w htmlFilePath =
     fst (goto w (''file://'' @ resolve w htmlFilePath)) @ timeout_events w"

text \<open>
  The events delivered while the \<open>try\<close> block runs: those of the navigation, and those of
  the five seconds if the navigation succeeds.
\<close>

definition tried :: "world \<Rightarrow> string \<Rightarrow> page_event list" where
  "tried w htmlFilePath =
     fst (goto w (''file://'' @ resolve w htmlFilePath))
     @ (if snd (goto w (''file://'' @ resolve w htmlFilePath)) = None
        then timeout_events w else [])"

text \<open>
  All the events delivered while the listeners are attached, in a run that attaches them:
  during the navigation, during the five seconds if the navigation succeeds, and while
  \<open>browser.close()\<close> is awaited.
\<close>

definition delivered :: "world \<Rightarrow> string \<Rightarrow> page_event list" where
  "delivered w htmlFilePath =
     fst (goto w (''file://'' @ resolve w htmlFilePath))
     @ (if snd (goto w (''file://'' @ resolve w htmlFilePath)) = None
        then timeout_events w else [])
     @ fst (close w)"

text \<open>
  The events that reach a live process: those before the first throw of \<open>null\<close>, at
  which the process dies.
\<close>

definition heard :: "page_event list \<Rightarrow> page_event list" where
  "heard evs = takeWhile (\<lambda>ev. ev \<noteq> PageError Nullish) evs"

text \<open>
  The page-error sequence of a list of events: one entry for each uncaught exception, with
  the message and the stack of what was thrown, if it has any.
\<close>

fun page_errors :: "page_event list \<Rightarrow> observed_error list" where
  "page_errors [] = []"
| "page_errors (PageError Nullish # evs) =
     \<lparr>etype = ''pageerror'', emessage = None, estack = None\<rparr> # page_errors evs"
| "page_errors (PageError (Value m s) # evs) =
     \<lparr>etype = ''pageerror'', emessage = m, estack = s\<rparr> # page_errors evs"
| "page_errors (Console msg # evs) = page_errors evs"

text \<open>
  The console-error sequence: one entry for each message of severity error whose text
  does not contain the marker.
\<close>

fun console_errors :: "page_event list \<Rightarrow> observed_error list" where
  "console_errors [] = []"
| "console_errors (PageError v # evs) = console_errors evs"
| "console_errors (Console msg # evs) =
     (if msg_type msg = ''error'' \<and> \<not> includes_str (msg_text msg) ''Failed to load resource''
      then \<lparr>etype = ''console.error'', emessage = Some (msg_text msg), estack = None\<rparr>
           # console_errors evs
      else console_errors evs)"

text \<open>
  The line a console message is passed on as: none for an error with the marker and for
  a severity other than error, warning and log.
\<close>

definition console_line :: "console_message \<Rightarrow> string list" where
  "console_line msg =
     (if msg_type msg = ''error'' \<and> \<not> includes_str (msg_text msg) ''Failed to load resource''
      then [''Console error: '' @ msg_text msg @ [CHR 0x0A]]
      else if msg_type msg = ''warning'' then [''Console warning: '' @ msg_text msg @ [CHR 0x0A]]
      else if msg_type msg = ''log'' then [''Console log: '' @ msg_text msg @ [CHR 0x0A]]
      else [])"

fun console_lines :: "page_event list \<Rightarrow> string list" where
  "console_lines [] = []"
| "console_lines (PageError v # evs) = console_lines evs"
| "console_lines (Console msg # evs) = console_line msg @ console_lines evs"

section \<open>Reading the effects\<close>

text \<open>The calls into the browser library, as opposed to writes to a stream.\<close>

fun is_call :: "effect \<Rightarrow> bool" where
  "is_call (ConsoleLog a) = False"
| "is_call (ConsoleError a) = False"
| "is_call (StderrWrite s) = False"
| "is_call (Exit n) = False"
| "is_call e = True"

definition calls :: "effect list \<Rightarrow> effect list" where
  "calls tr = filter is_call tr"

text \<open>What \<open>process.stderr.write\<close> was given, in order.\<close>

fun stderr_writes :: "effect list \<Rightarrow> string list" where
  "stderr_writes [] = []"
| "stderr_writes (StderrWrite s # tr) = s # stderr_writes tr"
| "stderr_writes (e # tr) = stderr_writes tr"

text \<open>
  A call of \<open>puppeteer.launch\<close> opens a session when it resolves, and a call of
  \<open>browser.close\<close> closes one when it resolves.
\<close>

definition sessions_opened :: "world \<Rightarrow> effect list \<Rightarrow> nat" where
  "sessions_opened w tr = (if launch w = None then count_list tr Launch else 0)"

definition sessions_closed :: "world \<Rightarrow> effect list \<Rightarrow> nat" where
  "sessions_closed w tr = (if snd (close w) = None then count_list tr Close else 0)"

section \<open>A sample world\<close>

text \<open>
  One file exists; the browser starts; during navigation the page logs an error, throws
  an exception whose message contains the marker, logs an error with the marker and a
  warning; during the wait it throws once more and logs a line.
\<close>

definition sample_world :: world where
  "sample_world =
     \<lparr>existsSync = (\<lambda>p. p = ''sketch.html''),
      resolve = (\<lambda>p. ''/work/'' @ p),
      launch = None,
      newPage = None,
      goto = (\<lambda>u.
        ([Console \<lparr>msg_type = ''error'', msg_text = ''boom''\<rparr>,
          PageError (Value (Some ''Failed to load resource: x'') (Some ''at a'')),
          Console \<lparr>msg_type = ''error'', msg_text = ''Failed to load resource: y''\<rparr>,
          Console \<lparr>msg_type = ''warning'', msg_text = ''slow''\<rparr>], None)),
      timeout_events =
        [PageError (Value (Some ''foo is not defined'') None),
         Console \<lparr>msg_type = ''log'', msg_text = ''hi''\<rparr>],
      close = ([], None)\<rparr>"

text \<open>The same world with a page that stays silent.\<close>

definition quiet_world :: world where
  "quiet_world = sample_world\<lparr>goto := (\<lambda>u. ([], None)), timeout_events := []\<rparr>"

text \<open>The error a failing browser call rejects with in the examples.\<close>

definition sample_failure :: js_error where
  "sample_failure = \<lparr>err_message = ''Navigation timeout of 30000 ms exceeded'',
                      err_stack = Some ''TimeoutError''\<rparr>"

text \<open>The sample world with a navigation that delivers its events and then times out.\<close>

definition timeout_world :: world where
  "timeout_world =
     sample_world\<lparr>goto := (\<lambda>u. (fst (goto sample_world u), Some sample_failure))\<rparr>"

text \<open>The quiet world with a page that throws \<open>null\<close> during the wait.\<close>

definition null_world :: world where
  "null_world = quiet_world\<lparr>timeout_events := [PageError Nullish]\<rparr>"

section \<open>Strings: what includes decides\<close>

lemma startsWith_iff: "startsWith s t \<longleftrightarrow> (\<exists>r. s = t @ r)"
  by (induction s t rule: startsWith.induct) auto

lemma includes_str_iff: "includes_str s t \<longleftrightarrow> (\<exists>p r. s = p @ t @ r)"
proof (induction s)
  case Nil
  then show ?case by auto
next
  case (Cons d s)
  show ?case
  proof
    assume "includes_str (d # s) t"
    then consider "startsWith (d # s) t" | "includes_str s t" by auto
    then show "\<exists>p r. d # s = p @ t @ r"
    proof cases
      case 1
      then obtain r where "d # s = t @ r" by (auto simp: startsWith_iff)
      then have "d # s = [] @ t @ r" by simp
      then show ?thesis by blast
    next
      case 2
      then obtain p r where "s = p @ t @ r" using Cons.IH by blast
      then have "d # s = (d # p) @ t @ r" by simp
      then show ?thesis by blast
    qed
  next
    assume "\<exists>p r. d # s = p @ t @ r"
    then obtain p r where pr: "d # s = p @ t @ r" by blast
    show "includes_str (d # s) t"
    proof (cases p)
      case Nil
      with pr have "startsWith (d # s) t" by (auto simp: startsWith_iff)
      then show ?thesis by simp
    next
      case (Cons a p')
      with pr have "s = p' @ t @ r" by simp
      then have "includes_str s t" using Cons.IH by blast
      then show ?thesis by simp
    qed
  qed
qed

section \<open>The state after a step\<close>

lemma calls_append: "calls (xs @ ys) = calls xs @ calls ys"
  by (simp add: calls_def)

lemma calls_Cons: "calls (e # es) = (if is_call e then e # calls es else calls es)"
  by (simp add: calls_def)

lemma calls_Nil: "calls [] = []"
  by (simp add: calls_def)


lemma count_calls: "is_call x \<Longrightarrow> count_list (calls tr) x = count_list tr x"
  by (induction tr) (auto simp: calls_def)

lemma stderr_writes_append: "stderr_writes (xs @ ys) = stderr_writes xs @ stderr_writes ys"
  by (induction xs rule: stderr_writes.induct) simp_all

lemma log_simps:
  "st_trace (log e st) = st_trace st @ [e]"
  "st_errors (log e st) = st_errors st"
  "st_consoleErrors (log e st) = st_consoleErrors st"
  "st_listeners (log e st) = st_listeners st"
  "st_killed (log e st) = st_killed st"
  by (simp_all add: log_def)

lemma page_on_simps:
  "st_trace (page_on n st) = st_trace st @ [PageOn n]"
  "st_errors (page_on n st) = st_errors st"
  "st_consoleErrors (page_on n st) = st_consoleErrors st"
  "st_listeners (page_on n st) = st_listeners st @ [n]"
  "st_killed (page_on n st) = st_killed st"
  by (simp_all add: page_on_def log_def)

text \<open>What the handler of \<open>pageerror\<close> does to each part of the state.\<close>

lemma on_pageerror_simps:
  "st_listeners (on_pageerror v st) = st_listeners st"
  "st_consoleErrors (on_pageerror v st) = st_consoleErrors st"
  "calls (st_trace (on_pageerror v st)) = calls (st_trace st)"
  "stderr_writes (st_trace (on_pageerror v st)) = stderr_writes (st_trace st)"
  "st_killed (on_pageerror v st) = (st_killed st \<or> v = Nullish)"
  "v \<noteq> Nullish \<Longrightarrow> st_errors (on_pageerror v st) = st_errors st @ page_errors [PageError v]"
  by (cases v; simp add: log_def Let_def calls_def stderr_writes_append)+

text \<open>What the handler of \<open>console\<close> does to each part of the state.\<close>

lemma on_console_simps:
  "st_listeners (on_console msg st) = st_listeners st"
  "st_errors (on_console msg st) = st_errors st"
  "calls (st_trace (on_console msg st)) = calls (st_trace st)"
  "stderr_writes (st_trace (on_console msg st)) = stderr_writes (st_trace st) @ console_line msg"
  "st_killed (on_console msg st) = st_killed st"
  "st_consoleErrors (on_console msg st) = st_consoleErrors st @ console_errors [Console msg]"
  by (simp_all add: on_console_def console_line_def log_def Let_def calls_def
      stderr_writes_append)

lemma deliver_listeners: "st_listeners (deliver ev st) = st_listeners st"
  by (cases ev) (simp_all add: on_pageerror_simps on_console_simps)

lemma deliver_all_listeners: "st_listeners (deliver_all evs st) = st_listeners st"
  unfolding deliver_all_def
  by (induction evs arbitrary: st) (simp_all add: deliver_listeners)

lemma deliver_calls: "calls (st_trace (deliver ev st)) = calls (st_trace st)"
  by (cases ev) (simp_all add: on_pageerror_simps on_console_simps)

lemma deliver_all_calls: "calls (st_trace (deliver_all evs st)) = calls (st_trace st)"
  unfolding deliver_all_def
  by (induction evs arbitrary: st) (simp_all add: deliver_calls)

lemma deliver_killed:
  "st_killed (deliver ev st) =
     (st_killed st \<or> (ev = PageError Nullish \<and> ''pageerror'' \<in> set (st_listeners st)))"
  by (cases ev) (auto simp: on_pageerror_simps on_console_simps)

lemma deliver_all_killed:
  "st_killed (deliver_all evs st) =
     (st_killed st \<or> (PageError Nullish \<in> set evs \<and> ''pageerror'' \<in> set (st_listeners st)))"
  unfolding deliver_all_def
  by (induction evs arbitrary: st) (auto simp: deliver_killed deliver_listeners)

lemma page_errors_Cons: "page_errors (ev # evs) = page_errors [ev] @ page_errors evs"
proof (cases ev)
  case (PageError v)
  then show ?thesis by (cases v) simp_all
next
  case (Console msg)
  then show ?thesis by simp
qed

lemma console_errors_Cons: "console_errors (ev # evs) = console_errors [ev] @ console_errors evs"
  by (cases ev) simp_all

lemma console_lines_Cons: "console_lines (ev # evs) = console_lines [ev] @ console_lines evs"
  by (cases ev) simp_all

lemma page_errors_append: "page_errors (xs @ ys) = page_errors xs @ page_errors ys"
  by (induction xs rule: page_errors.induct) simp_all

lemma console_errors_append: "console_errors (xs @ ys) = console_errors xs @ console_errors ys"
  by (induction xs rule: console_errors.induct) simp_all

lemma console_lines_append: "console_lines (xs @ ys) = console_lines xs @ console_lines ys"
  by (induction xs rule: console_lines.induct) simp_all

text \<open>
  One event, delivered to a live process with both listeners attached, and not the
  throw of \<open>null\<close>: the arrays and the stream grow by what the specification says.
\<close>

lemma deliver_step:
  assumes "\<not> st_killed st" "''pageerror'' \<in> set (st_listeners st)"
    "''console'' \<in> set (st_listeners st)" "ev \<noteq> PageError Nullish"
  shows "st_errors (deliver ev st) = st_errors st @ page_errors [ev]"
    and "st_consoleErrors (deliver ev st) = st_consoleErrors st @ console_errors [ev]"
    and "stderr_writes (st_trace (deliver ev st)) =
         stderr_writes (st_trace st) @ console_lines [ev]"
    and "\<not> st_killed (deliver ev st)"
  using assms by (cases ev; auto simp: on_pageerror_simps on_console_simps)+

lemma deliver_all_steps:
  assumes "\<not> st_killed st" "''pageerror'' \<in> set (st_listeners st)"
    "''console'' \<in> set (st_listeners st)" "PageError Nullish \<notin> set evs"
  shows "st_errors (deliver_all evs st) = st_errors st @ page_errors evs
       \<and> st_consoleErrors (deliver_all evs st) = st_consoleErrors st @ console_errors evs
       \<and> stderr_writes (st_trace (deliver_all evs st)) =
           stderr_writes (st_trace st) @ console_lines evs"
  using assms
proof (induction evs arbitrary: st)
  case Nil
  then show ?case by (simp add: deliver_all_def)
next
  case (Cons ev evs)
  from Cons.prems have ev: "ev \<noteq> PageError Nullish" and evs: "PageError Nullish \<notin> set evs"
    by auto
  note step = deliver_step [OF Cons.prems(1-3) ev]
  have un: "deliver_all (ev # evs) st = deliver_all evs (deliver ev st)"
    by (simp add: deliver_all_def)
  have "st_errors (deliver_all evs (deliver ev st)) = st_errors (deliver ev st) @ page_errors evs
       \<and> st_consoleErrors (deliver_all evs (deliver ev st)) =
           st_consoleErrors (deliver ev st) @ console_errors evs
       \<and> stderr_writes (st_trace (deliver_all evs (deliver ev st))) =
           stderr_writes (st_trace (deliver ev st)) @ console_lines evs"
    using Cons.prems(2,3) step(4) evs
    by (intro Cons.IH) (simp_all add: deliver_listeners)
  then show ?case
    unfolding un step(1-3)
    by (simp add: page_errors_Cons [of ev evs] console_errors_Cons [of ev evs]
        console_lines_Cons [of ev evs])
qed

lemma deliver_all_errors:
  "\<not> st_killed st \<Longrightarrow> ''pageerror'' \<in> set (st_listeners st) \<Longrightarrow>
   ''console'' \<in> set (st_listeners st) \<Longrightarrow> PageError Nullish \<notin> set evs \<Longrightarrow>
   st_errors (deliver_all evs st) = st_errors st @ page_errors evs"
  using deliver_all_steps [of st evs] by simp

lemma deliver_all_consoleErrors:
  "\<not> st_killed st \<Longrightarrow> ''pageerror'' \<in> set (st_listeners st) \<Longrightarrow>
   ''console'' \<in> set (st_listeners st) \<Longrightarrow> PageError Nullish \<notin> set evs \<Longrightarrow>
   st_consoleErrors (deliver_all evs st) = st_consoleErrors st @ console_errors evs"
  using deliver_all_steps [of st evs] by simp

lemma deliver_all_stderr:
  "\<not> st_killed st \<Longrightarrow> ''pageerror'' \<in> set (st_listeners st) \<Longrightarrow>
   ''console'' \<in> set (st_listeners st) \<Longrightarrow> PageError Nullish \<notin> set evs \<Longrightarrow>
   stderr_writes (st_trace (deliver_all evs st)) =
     stderr_writes (st_trace st) @ console_lines evs"
  using deliver_all_steps [of st evs] by simp

text \<open>Without listeners nothing is written.\<close>

lemma deliver_all_unheard:
  "st_listeners st = [] \<Longrightarrow> deliver_all evs st = st"
  unfolding deliver_all_def
proof (induction evs arbitrary: st)
  case Nil
  then show ?case by simp
next
  case (Cons ev evs)
  then have "deliver ev st = st" by (cases ev) simp_all
  with Cons show ?case by simp
qed

section \<open>The blocks of evaluateP5Sketch\<close>

lemma try_block_launch_fails:
  "launch w = Some e \<Longrightarrow> try_block w url st0 = (Inl (Rejected e), False, log Launch st0)"
  by (simp add: try_block_def)

lemma try_block_newPage_fails:
  "launch w = None \<Longrightarrow> newPage w = Some e \<Longrightarrow>
   try_block w url st0 = (Inl (Rejected e), True, log NewPage (log Launch st0))"
  by (simp add: try_block_def)

lemma try_block_killed_goto:
  assumes "launch w = None" "newPage w = None" "PageError Nullish \<in> set (fst (goto w url))"
  shows "fst (try_block w url st0) = Inl Killed"
    and "calls (st_trace (snd (snd (try_block w url st0)))) =
         calls (st_trace st0) @ [Launch, NewPage, PageOn ''pageerror'', PageOn ''console'',
                            Goto url ''domcontentloaded'' 30000]"
  using assms
  by (simp_all add: try_block_def Let_def deliver_all_calls deliver_all_killed
      deliver_all_listeners log_simps page_on_simps calls_append calls_Cons calls_Nil)

lemma try_block_goto_fails:
  assumes "launch w = None" "newPage w = None" "snd (goto w url) = Some e"
    "PageError Nullish \<notin> set (fst (goto w url))" "\<not> st_killed st0"
  shows "fst (try_block w url st0) = Inl (Rejected e)"
    and "fst (snd (try_block w url st0)) = True"
    and "calls (st_trace (snd (snd (try_block w url st0)))) =
         calls (st_trace st0) @ [Launch, NewPage, PageOn ''pageerror'', PageOn ''console'',
                            Goto url ''domcontentloaded'' 30000]"
    and "stderr_writes (st_trace (snd (snd (try_block w url st0)))) =
         stderr_writes (st_trace st0) @ console_lines (fst (goto w url))"
    and "\<not> st_killed (snd (snd (try_block w url st0)))"
    and "st_listeners (snd (snd (try_block w url st0))) =
         st_listeners st0 @ [''pageerror'', ''console'']"
  using assms
  by (simp_all add: try_block_def Let_def deliver_all_calls deliver_all_killed
      deliver_all_listeners deliver_all_stderr log_simps page_on_simps calls_append
      calls_Cons calls_Nil stderr_writes_append)

lemma try_block_killed_wait:
  assumes "launch w = None" "newPage w = None" "snd (goto w url) = None"
    "PageError Nullish \<notin> set (fst (goto w url))" "\<not> st_killed st0"
    "PageError Nullish \<in> set (timeout_events w)"
  shows "fst (try_block w url st0) = Inl Killed"
    and "calls (st_trace (snd (snd (try_block w url st0)))) =
         calls (st_trace st0) @ [Launch, NewPage, PageOn ''pageerror'', PageOn ''console'',
                            Goto url ''domcontentloaded'' 30000, SetTimeout 5000]"
  using assms
  by (simp_all add: try_block_def Let_def deliver_all_calls deliver_all_killed
      deliver_all_listeners log_simps page_on_simps calls_append calls_Cons calls_Nil)

lemma try_block_ok:
  assumes "launch w = None" "newPage w = None" "snd (goto w url) = None"
    "PageError Nullish \<notin> set (fst (goto w url))" "\<not> st_killed st0"
    "PageError Nullish \<notin> set (timeout_events w)"
    "st_errors st0 = []" "st_consoleErrors st0 = []"
  shows "fst (try_block w url st0) =
         Inr (if page_errors (fst (goto w url) @ timeout_events w) @
                 console_errors (fst (goto w url) @ timeout_events w) = []
              then \<lparr>success = True, message = ''No runtime errors detected.'', errors = None\<rparr>
              else \<lparr>success = False, message = ''Runtime errors detected.'',
                    errors = Some (page_errors (fst (goto w url) @ timeout_events w) @
                                   console_errors (fst (goto w url) @ timeout_events w))\<rparr>)"
    and "fst (snd (try_block w url st0)) = True"
    and "calls (st_trace (snd (snd (try_block w url st0)))) =
         calls (st_trace st0) @ [Launch, NewPage, PageOn ''pageerror'', PageOn ''console'',
                            Goto url ''domcontentloaded'' 30000, SetTimeout 5000]"
    and "stderr_writes (st_trace (snd (snd (try_block w url st0)))) =
         stderr_writes (st_trace st0) @ console_lines (fst (goto w url) @ timeout_events w)"
    and "\<not> st_killed (snd (snd (try_block w url st0)))"
    and "st_listeners (snd (snd (try_block w url st0))) =
         st_listeners st0 @ [''pageerror'', ''console'']"
  using assms
  by (simp_all add: try_block_def Let_def deliver_all_calls deliver_all_killed
      deliver_all_listeners deliver_all_stderr deliver_all_errors deliver_all_consoleErrors
      log_simps page_on_simps calls_append calls_Cons calls_Nil stderr_writes_append
      page_errors_append console_errors_append console_lines_append)

lemma catch_simps:
  "fst (catch_block e st) =
     \<lparr>success = False, message = ''Puppeteer or navigation error: '' @ err_message e,
      errors = Some [\<lparr>etype = ''puppeteer_error'', emessage = Some (err_message e),
                      estack = err_stack e\<rparr>]\<rparr>"
  "calls (st_trace (snd (catch_block e st))) = calls (st_trace st)"
  "stderr_writes (st_trace (snd (catch_block e st))) = stderr_writes (st_trace st)"
  "st_killed (snd (catch_block e st)) = st_killed st"
  "st_listeners (snd (catch_block e st)) = st_listeners st"
  by (simp_all add: catch_block_def log_simps calls_append calls_Cons calls_Nil
      stderr_writes_append)

lemma settle_simps:
  "fst (settle w b c) =
     (if b then
        (if st_killed (snd c)
            \<or> (PageError Nullish \<in> set (fst (close w))
                \<and> ''pageerror'' \<in> set (st_listeners (snd c)))
         then Inl Killed
         else case snd (close w) of Some e \<Rightarrow> Inl (Rejected e) | None \<Rightarrow> Inr (fst c))
      else Inr (fst c))"
  "calls (snd (settle w b c)) = calls (st_trace (snd c)) @ (if b then [Close] else [])"
  by (auto simp: settle_def finally_block_def Let_def deliver_all_calls deliver_all_killed
      log_simps calls_append calls_Cons calls_Nil split: option.split)

lemma settle_stderr:
  assumes "\<not> st_killed (snd c)" "''pageerror'' \<in> set (st_listeners (snd c))"
    "''console'' \<in> set (st_listeners (snd c))" "PageError Nullish \<notin> set (fst (close w))"
  shows "stderr_writes (snd (settle w True c)) =
         stderr_writes (st_trace (snd c)) @ console_lines (fst (close w))"
  using assms
  by (simp add: settle_def finally_block_def Let_def deliver_all_stderr log_simps
      stderr_writes_append)

section \<open>The runs of evaluateP5Sketch\<close>

lemma evaluate_unfold:
  "existsSync w p \<Longrightarrow>
   evaluateP5Sketch w p =
     (let url = ''file://'' @ resolve w p;
          st0 = \<lparr>st_errors = [], st_consoleErrors = [], st_listeners = [],
                 st_trace = [ConsoleLog [Str (''Evaluating P5.js sketch from: '' @ url)]],
                 st_killed = False\<rparr>;
          t = try_block w url st0
      in case fst t of
           Inl Killed \<Rightarrow> (Inl Killed, st_trace (snd (snd t)))
         | Inl (Rejected error) \<Rightarrow> settle w (fst (snd t)) (catch_block error (snd (snd t)))
         | Inr v \<Rightarrow> settle w (fst (snd t)) (v, snd (snd t)))"
  by (simp add: evaluateP5Sketch_def Let_def case_prod_beta)

lemma evaluate_missing:
  "\<not> existsSync w p \<Longrightarrow>
   evaluateP5Sketch w p =
     (Inr \<lparr>success = False, message = ''HTML file not found: '' @ p, errors = None\<rparr>,
      [ConsoleError [Str (''Error: HTML file not found at '' @ p)]])"
  by (simp add: evaluateP5Sketch_def)

lemma evaluate_launch_fails:
  assumes "existsSync w p" "launch w = Some e"
  shows "fst (evaluateP5Sketch w p) =
         Inr \<lparr>success = False, message = ''Puppeteer or navigation error: '' @ err_message e,
              errors = Some [\<lparr>etype = ''puppeteer_error'', emessage = Some (err_message e),
                              estack = err_stack e\<rparr>]\<rparr>"
    and "calls (snd (evaluateP5Sketch w p)) = [Launch]"
  using assms
  by (simp_all add: evaluate_unfold Let_def try_block_launch_fails settle_simps catch_simps
      log_simps calls_append calls_Cons calls_Nil)

lemma evaluate_newPage_fails:
  assumes "existsSync w p" "launch w = None" "newPage w = Some e"
  shows "fst (evaluateP5Sketch w p) =
         (case snd (close w) of
            Some e' \<Rightarrow> Inl (Rejected e')
          | None \<Rightarrow>
              Inr \<lparr>success = False, message = ''Puppeteer or navigation error: '' @ err_message e,
                   errors = Some [\<lparr>etype = ''puppeteer_error'', emessage = Some (err_message e),
                                   estack = err_stack e\<rparr>]\<rparr>)"
    and "calls (snd (evaluateP5Sketch w p)) = [Launch, NewPage, Close]"
  using assms
  by (simp_all add: evaluate_unfold Let_def try_block_newPage_fails settle_simps catch_simps
      log_simps calls_append calls_Cons calls_Nil split: option.split)

lemma evaluate_goto_fails:
  assumes "existsSync w p" "launch w = None" "newPage w = None"
    "snd (goto w (''file://'' @ resolve w p)) = Some e"
    "PageError Nullish \<notin> set (delivered w p)"
  shows "fst (evaluateP5Sketch w p) =
         (case snd (close w) of
            Some e' \<Rightarrow> Inl (Rejected e')
          | None \<Rightarrow>
              Inr \<lparr>success = False, message = ''Puppeteer or navigation error: '' @ err_message e,
                   errors = Some [\<lparr>etype = ''puppeteer_error'', emessage = Some (err_message e),
                                   estack = err_stack e\<rparr>]\<rparr>)"
    and "calls (snd (evaluateP5Sketch w p)) =
         [Launch, NewPage, PageOn ''pageerror'', PageOn ''console'',
          Goto (''file://'' @ resolve w p) ''domcontentloaded'' 30000, Close]"
    and "stderr_writes (snd (evaluateP5Sketch w p)) = console_lines (delivered w p)"
proof -
  let ?url = "''file://'' @ resolve w p"
  let ?st0 = "\<lparr>st_errors = [], st_consoleErrors = [], st_listeners = [],
                 st_trace = [ConsoleLog [Str (''Evaluating P5.js sketch from: '' @ ?url)]],
                 st_killed = False\<rparr>"
  from assms(4,5) have g: "PageError Nullish \<notin> set (fst (goto w ?url))"
    and c: "PageError Nullish \<notin> set (fst (close w))"
    and d: "delivered w p = fst (goto w ?url) @ fst (close w)"
    by (simp_all add: delivered_def)
  have k: "\<not> st_killed ?st0" by simp
  note t = try_block_goto_fails [OF assms(2,3,4) g k]
  have ev: "evaluateP5Sketch w p =
      settle w True (catch_block e (snd (snd (try_block w ?url ?st0))))"
    using assms(1) t(1,2) by (simp add: evaluate_unfold Let_def)
  show "fst (evaluateP5Sketch w p) =
         (case snd (close w) of
            Some e' \<Rightarrow> Inl (Rejected e')
          | None \<Rightarrow>
              Inr \<lparr>success = False, message = ''Puppeteer or navigation error: '' @ err_message e,
                   errors = Some [\<lparr>etype = ''puppeteer_error'', emessage = Some (err_message e),
                                   estack = err_stack e\<rparr>]\<rparr>)"
    unfolding ev using t(5) c by (simp add: settle_simps catch_simps split: option.split)
  show "calls (snd (evaluateP5Sketch w p)) =
         [Launch, NewPage, PageOn ''pageerror'', PageOn ''console'',
          Goto ?url ''domcontentloaded'' 30000, Close]"
    unfolding ev using t(3) by (simp add: settle_simps catch_simps calls_Cons calls_Nil)
  show "stderr_writes (snd (evaluateP5Sketch w p)) = console_lines (delivered w p)"
    unfolding ev d using t(4,5,6) c
    by (simp add: settle_stderr catch_simps console_lines_append)
qed

lemma evaluate_ok:
  assumes "existsSync w p" "launch w = None" "newPage w = None"
    "snd (goto w (''file://'' @ resolve w p)) = None"
    "PageError Nullish \<notin> set (delivered w p)"
  shows "fst (evaluateP5Sketch w p) =
         (case snd (close w) of
            Some e' \<Rightarrow> Inl (Rejected e')
          | None \<Rightarrow>
              Inr (if page_errors (observed w p) @ console_errors (observed w p) = []
                   then \<lparr>success = True, message = ''No runtime errors detected.'', errors = None\<rparr>
                   else \<lparr>success = False, message = ''Runtime errors detected.'',
                         errors = Some (page_errors (observed w p) @
                                        console_errors (observed w p))\<rparr>))"
    and "calls (snd (evaluateP5Sketch w p)) =
         [Launch, NewPage, PageOn ''pageerror'', PageOn ''console'',
          Goto (''file://'' @ resolve w p) ''domcontentloaded'' 30000, SetTimeout 5000, Close]"
    and "stderr_writes (snd (evaluateP5Sketch w p)) = console_lines (delivered w p)"
proof -
  let ?url = "''file://'' @ resolve w p"
  let ?st0 = "\<lparr>st_errors = [], st_consoleErrors = [], st_listeners = [],
                 st_trace = [ConsoleLog [Str (''Evaluating P5.js sketch from: '' @ ?url)]],
                 st_killed = False\<rparr>"
  let ?t = "try_block w ?url ?st0"
  from assms(4,5) have g: "PageError Nullish \<notin> set (fst (goto w ?url))"
    and ti: "PageError Nullish \<notin> set (timeout_events w)"
    and c: "PageError Nullish \<notin> set (fst (close w))"
    and d: "delivered w p = (fst (goto w ?url) @ timeout_events w) @ fst (close w)"
    by (simp_all add: delivered_def)
  have k: "\<not> st_killed ?st0" and e0: "st_errors ?st0 = []" "st_consoleErrors ?st0 = []"
    by simp_all
  note t = try_block_ok [OF assms(2,3,4) g k ti e0]
  obtain v where v: "fst ?t = Inr v"
    and vdef: "v = (if page_errors (observed w p) @ console_errors (observed w p) = []
                   then \<lparr>success = True, message = ''No runtime errors detected.'', errors = None\<rparr>
                   else \<lparr>success = False, message = ''Runtime errors detected.'',
                         errors = Some (page_errors (observed w p) @
                                        console_errors (observed w p))\<rparr>)"
    using t(1) by (simp add: observed_def)
  have ev: "evaluateP5Sketch w p = settle w True (v, snd (snd ?t))"
    using assms(1) v t(2) by (simp add: evaluate_unfold Let_def)
  show "fst (evaluateP5Sketch w p) =
         (case snd (close w) of
            Some e' \<Rightarrow> Inl (Rejected e')
          | None \<Rightarrow>
              Inr (if page_errors (observed w p) @ console_errors (observed w p) = []
                   then \<lparr>success = True, message = ''No runtime errors detected.'', errors = None\<rparr>
                   else \<lparr>success = False, message = ''Runtime errors detected.'',
                         errors = Some (page_errors (observed w p) @
                                        console_errors (observed w p))\<rparr>))"
    unfolding ev using t(5) c vdef by (simp add: settle_simps split: option.split)
  show "calls (snd (evaluateP5Sketch w p)) =
         [Launch, NewPage, PageOn ''pageerror'', PageOn ''console'',
          Goto ?url ''domcontentloaded'' 30000, SetTimeout 5000, Close]"
    unfolding ev using t(3) by (simp add: settle_simps calls_Cons calls_Nil)
  show "stderr_writes (snd (evaluateP5Sketch w p)) = console_lines (delivered w p)"
    unfolding ev d using t(4,5,6) c
    by (simp add: settle_stderr console_lines_append)
qed

text \<open>A page that throws \<open>null\<close> while the listener is attached kills the process.\<close>

lemma evaluate_killed:
  assumes "existsSync w p" "launch w = None" "newPage w = None"
    "PageError Nullish \<in> set (delivered w p)"
  shows "fst (evaluateP5Sketch w p) = Inl Killed"
    and "\<exists>rest. calls (snd (evaluateP5Sketch w p)) =
           [Launch, NewPage, PageOn ''pageerror'', PageOn ''console'',
            Goto (''file://'' @ resolve w p) ''domcontentloaded'' 30000] @ rest
         \<and> (rest = [] \<or> rest = [SetTimeout 5000] \<or> rest = [Close]
            \<or> rest = [SetTimeout 5000, Close])"
proof -
  let ?url = "''file://'' @ resolve w p"
  let ?st0 = "\<lparr>st_errors = [], st_consoleErrors = [], st_listeners = [],
                 st_trace = [ConsoleLog [Str (''Evaluating P5.js sketch from: '' @ ?url)]],
                 st_killed = False\<rparr>"
  let ?t = "try_block w ?url ?st0"
  let ?base = "[Launch, NewPage, PageOn ''pageerror'', PageOn ''console'',
            Goto ?url ''domcontentloaded'' 30000]"
  let ?shape = "\<lambda>tr. \<exists>rest. calls tr = ?base @ rest
         \<and> (rest = [] \<or> rest = [SetTimeout 5000] \<or> rest = [Close]
            \<or> rest = [SetTimeout 5000, Close])"
  have k: "\<not> st_killed ?st0" and e0: "st_errors ?st0 = []" "st_consoleErrors ?st0 = []"
    by simp_all
  have both: "fst (evaluateP5Sketch w p) = Inl Killed \<and> ?shape (snd (evaluateP5Sketch w p))"
  proof (cases "PageError Nullish \<in> set (fst (goto w ?url))")
    case True
    note t = try_block_killed_goto [OF assms(2,3) True, of ?st0]
    have "evaluateP5Sketch w p = (Inl Killed, st_trace (snd (snd ?t)))"
      using assms(1) t(1) by (simp add: evaluate_unfold Let_def)
    with t(2) show ?thesis by (simp add: calls_Cons calls_Nil)
  next
    case g: False
    show ?thesis
    proof (cases "snd (goto w ?url)")
      case (Some e)
      with assms(4) g have c: "PageError Nullish \<in> set (fst (close w))"
        by (simp add: delivered_def)
      note t = try_block_goto_fails [OF assms(2,3) Some g k]
      have ev: "evaluateP5Sketch w p = settle w True (catch_block e (snd (snd ?t)))"
        using assms(1) t(1,2) by (simp add: evaluate_unfold Let_def)
      have "fst (evaluateP5Sketch w p) = Inl Killed"
        unfolding ev using t(6) c by (simp add: settle_simps catch_simps)
      moreover have "calls (snd (evaluateP5Sketch w p)) = ?base @ [Close]"
        unfolding ev using t(3) by (simp add: settle_simps catch_simps calls_Cons calls_Nil)
      ultimately show ?thesis by simp
    next
      case None
      show ?thesis
      proof (cases "PageError Nullish \<in> set (timeout_events w)")
        case True
        note t = try_block_killed_wait [OF assms(2,3) None g k True]
        have "evaluateP5Sketch w p = (Inl Killed, st_trace (snd (snd ?t)))"
          using assms(1) t(1) by (simp add: evaluate_unfold Let_def)
        with t(2) show ?thesis by (simp add: calls_Cons calls_Nil)
      next
        case ti: False
        with assms(4) g None have c: "PageError Nullish \<in> set (fst (close w))"
          by (simp add: delivered_def)
        note t = try_block_ok [OF assms(2,3) None g k ti e0]
        obtain v where v: "fst ?t = Inr v" using t(1) by simp
        have ev: "evaluateP5Sketch w p = settle w True (v, snd (snd ?t))"
          using assms(1) v t(2) by (simp add: evaluate_unfold Let_def)
        have "fst (evaluateP5Sketch w p) = Inl Killed"
          unfolding ev using t(6) c by (simp add: settle_simps)
        moreover have "calls (snd (evaluateP5Sketch w p)) = ?base @ [SetTimeout 5000, Close]"
          unfolding ev using t(3) by (simp add: settle_simps calls_Cons calls_Nil)
        ultimately show ?thesis by simp
      qed
    qed
  qed
  from both show "fst (evaluateP5Sketch w p) = Inl Killed" by (rule conjunct1)
  from both show "?shape (snd (evaluateP5Sketch w p))" by (rule conjunct2)
qed

text \<open>The calls of a run in which no listener throws.\<close>

lemma evaluate_calls:
  assumes "existsSync w p \<and> launch w = None \<and> newPage w = None \<longrightarrow>
           PageError Nullish \<notin> set (delivered w p)"
  shows "calls (snd (evaluateP5Sketch w p)) =
     (if \<not> existsSync w p then []
      else if launch w \<noteq> None then [Launch]
      else if newPage w \<noteq> None then [Launch, NewPage, Close]
      else if snd (goto w (''file://'' @ resolve w p)) \<noteq> None then
        [Launch, NewPage, PageOn ''pageerror'', PageOn ''console'',
         Goto (''file://'' @ resolve w p) ''domcontentloaded'' 30000, Close]
      else
        [Launch, NewPage, PageOn ''pageerror'', PageOn ''console'',
         Goto (''file://'' @ resolve w p) ''domcontentloaded'' 30000, SetTimeout 5000, Close])"
proof (cases "existsSync w p")
  case False
  then show ?thesis by (simp add: evaluate_missing calls_Cons calls_Nil)
next
  case ex: True
  show ?thesis
  proof (cases "launch w")
    case (Some e)
    with ex evaluate_launch_fails(2) [of w p e] show ?thesis by simp
  next
    case l: None
    show ?thesis
    proof (cases "newPage w")
      case (Some e)
      with ex l evaluate_newPage_fails(2) [of w p e] show ?thesis by simp
    next
      case n: None
      with assms ex l have nn: "PageError Nullish \<notin> set (delivered w p)" by simp
      show ?thesis
      proof (cases "snd (goto w (''file://'' @ resolve w p))")
        case (Some e)
        with ex l n nn evaluate_goto_fails(2) [of w p e] show ?thesis by simp
      next
        case None
        with ex l n nn evaluate_ok(2) [of w p] show ?thesis by simp
      qed
    qed
  qed
qed

text \<open>Whatever happens, the calls of a run begin in the same order.\<close>

lemma evaluate_calls_shape:
  "(\<not> existsSync w p \<and> calls (snd (evaluateP5Sketch w p)) = [])
   \<or> (existsSync w p \<and>
       (calls (snd (evaluateP5Sketch w p)) = [Launch]
        \<or> calls (snd (evaluateP5Sketch w p)) = [Launch, NewPage, Close]
        \<or> (\<exists>rest. calls (snd (evaluateP5Sketch w p)) =
              [Launch, NewPage, PageOn ''pageerror'', PageOn ''console'',
               Goto (''file://'' @ resolve w p) ''domcontentloaded'' 30000] @ rest
            \<and> (rest = [] \<or> rest = [SetTimeout 5000] \<or> rest = [Close]
               \<or> rest = [SetTimeout 5000, Close]))))"
proof (cases "existsSync w p \<and> launch w = None \<and> newPage w = None
              \<and> PageError Nullish \<in> set (delivered w p)")
  case True
  then show ?thesis using evaluate_killed(2) [of w p] by simp
next
  case False
  then have "existsSync w p \<and> launch w = None \<and> newPage w = None \<longrightarrow>
           PageError Nullish \<notin> set (delivered w p)" by auto
  from evaluate_calls [OF this] show ?thesis by simp
qed

lemma evaluate_killed_iff:
  "fst (evaluateP5Sketch w p) = Inl Killed \<longleftrightarrow>
   existsSync w p \<and> launch w = None \<and> newPage w = None
   \<and> PageError Nullish \<in> set (delivered w p)"
proof (cases "existsSync w p")
  case False
  then show ?thesis by (simp add: evaluate_missing)
next
  case ex: True
  show ?thesis
  proof (cases "launch w")
    case (Some e)
    with ex evaluate_launch_fails(1) [of w p e] show ?thesis by simp
  next
    case l: None
    show ?thesis
    proof (cases "newPage w")
      case (Some e)
      with ex l evaluate_newPage_fails(1) [of w p e] show ?thesis
        by (cases "snd (close w)") simp_all
    next
      case n: None
      show ?thesis
      proof (cases "PageError Nullish \<in> set (delivered w p)")
        case True
        with ex l n evaluate_killed(1) [of w p] show ?thesis by simp
      next
        case nn: False
        show ?thesis
        proof (cases "snd (goto w (''file://'' @ resolve w p))")
          case (Some e)
          with ex l n nn evaluate_goto_fails(1) [of w p e] show ?thesis
            by (cases "snd (close w)") simp_all
        next
          case None
          with ex l n nn evaluate_ok(1) [of w p] show ?thesis
            by (cases "snd (close w)") simp_all
        qed
      qed
    qed
  qed
qed

text \<open>
  The promise resolves unless the process is killed, or \<open>browser.close()\<close> is called and
  rejects: the \<open>finally\<close> block has no handler of its own.
\<close>

lemma evaluate_resolves_iff:
  "(\<exists>r. fst (evaluateP5Sketch w p) = Inr r) \<longleftrightarrow>
   (existsSync w p \<and> launch w = None \<longrightarrow>
      snd (close w) = None
      \<and> (newPage w = None \<longrightarrow> PageError Nullish \<notin> set (delivered w p)))"
proof (cases "existsSync w p")
  case False
  then show ?thesis by (simp add: evaluate_missing)
next
  case ex: True
  show ?thesis
  proof (cases "launch w")
    case (Some e)
    with ex evaluate_launch_fails(1) [of w p e] show ?thesis by simp
  next
    case l: None
    show ?thesis
    proof (cases "newPage w")
      case (Some e)
      with ex l evaluate_newPage_fails(1) [of w p e] show ?thesis
        by (cases "snd (close w)") simp_all
    next
      case n: None
      show ?thesis
      proof (cases "PageError Nullish \<in> set (delivered w p)")
        case True
        with ex l n evaluate_killed(1) [of w p] show ?thesis by simp
      next
        case nn: False
        show ?thesis
        proof (cases "snd (goto w (''file://'' @ resolve w p))")
          case (Some e)
          with ex l n nn evaluate_goto_fails(1) [of w p e] show ?thesis
            by (cases "snd (close w)") simp_all
        next
          case None
          with ex l n nn evaluate_ok(1) [of w p] show ?thesis
            by (cases "snd (close w)") simp_all
        qed
      qed
    qed
  qed
qed

text \<open>Every result the function resolves to is one of three.\<close>

lemma evaluate_Inr_cases:
  assumes "fst (evaluateP5Sketch w p) = Inr r"
  shows "(\<not> existsSync w p \<and>
          r = \<lparr>success = False, message = ''HTML file not found: '' @ p, errors = None\<rparr>)
       \<or> (existsSync w p \<and>
          (\<exists>e::js_error. r = \<lparr>success = False,
                     message = ''Puppeteer or navigation error: '' @ err_message e,
                     errors = Some [\<lparr>etype = ''puppeteer_error'',
                                     emessage = Some (err_message e),
                                     estack = err_stack e\<rparr>]\<rparr>))
       \<or> (existsSync w p \<and> launch w = None \<and> newPage w = None \<and>
          snd (goto w (''file://'' @ resolve w p)) = None \<and> snd (close w) = None \<and>
          PageError Nullish \<notin> set (delivered w p) \<and>
          r = (if page_errors (observed w p) @ console_errors (observed w p) = []
               then \<lparr>success = True, message = ''No runtime errors detected.'', errors = None\<rparr>
               else \<lparr>success = False, message = ''Runtime errors detected.'',
                     errors = Some (page_errors (observed w p) @ console_errors (observed w p))\<rparr>))"
proof -
  let ?caught = "\<lambda>e::js_error. \<lparr>success = False,
      message = ''Puppeteer or navigation error: '' @ err_message e,
      errors = Some [\<lparr>etype = ''puppeteer_error'', emessage = Some (err_message e),
                      estack = err_stack e\<rparr>]\<rparr>"
  show ?thesis
  proof (cases "existsSync w p")
    case False
    with assms show ?thesis by (simp add: evaluate_missing)
  next
    case ex: True
    show ?thesis
    proof (cases "launch w")
      case (Some e)
      with ex assms evaluate_launch_fails(1) [of w p e] have "r = ?caught e" by simp
      then have c: "\<exists>e. r = ?caught e"
        by (rule exI [where x = e and P = "\<lambda>e. r = ?caught e"])
      show ?thesis by (rule disjI2, rule disjI1, rule conjI [OF ex c])
    next
      case l: None
      show ?thesis
      proof (cases "newPage w")
        case (Some e)
        with ex l assms evaluate_newPage_fails(1) [of w p e] have "r = ?caught e"
          by (cases "snd (close w)") simp_all
        then have c: "\<exists>e. r = ?caught e"
          by (rule exI [where x = e and P = "\<lambda>e. r = ?caught e"])
        show ?thesis by (rule disjI2, rule disjI1, rule conjI [OF ex c])
      next
        case n: None
        have nn: "PageError Nullish \<notin> set (delivered w p)"
          using assms ex l n evaluate_killed(1) [of w p] by auto
        show ?thesis
        proof (cases "snd (goto w (''file://'' @ resolve w p))")
          case (Some e)
          with ex l n nn assms evaluate_goto_fails(1) [of w p e] have "r = ?caught e"
            by (cases "snd (close w)") simp_all
          then have c: "\<exists>e. r = ?caught e"
            by (rule exI [where x = e and P = "\<lambda>e. r = ?caught e"])
          show ?thesis by (rule disjI2, rule disjI1, rule conjI [OF ex c])
        next
          case g: None
          with ex l n nn assms evaluate_ok(1) [of w p] show ?thesis
            by (cases "snd (close w)") auto
        qed
      qed
    qed
  qed
qed

text \<open>In a run that attaches the listeners and in which none throws, stderr is given the
  lines of the messages delivered, in order.\<close>

lemma evaluate_stderr:
  assumes "existsSync w p" "launch w = None" "newPage w = None"
    "PageError Nullish \<notin> set (delivered w p)"
  shows "stderr_writes (snd (evaluateP5Sketch w p)) = console_lines (delivered w p)"
proof (cases "snd (goto w (''file://'' @ resolve w p))")
  case (Some e)
  from evaluate_goto_fails(3) [OF assms(1-3) Some assms(4)] show ?thesis .
next
  case None
  from evaluate_ok(3) [OF assms(1-3) None assms(4)] show ?thesis .
qed

section \<open>The two sequences and the lines\<close>

lemma page_errors_etype: "e \<in> set (page_errors evs) \<Longrightarrow> etype e = ''pageerror''"
  by (induction evs rule: page_errors.induct) auto

lemma console_errors_etype: "e \<in> set (console_errors evs) \<Longrightarrow> etype e = ''console.error''"
  by (induction evs rule: console_errors.induct) (auto split: if_splits)

lemma typed_append_order:
  assumes P: "\<forall>e \<in> set ps. etype e = ''pageerror''"
    and C: "\<forall>e \<in> set cs. etype e = ''console.error''"
    and i: "i < length (ps @ cs)" and j: "j < length (ps @ cs)"
    and ti: "etype ((ps @ cs) ! i) = ''pageerror''"
    and tj: "etype ((ps @ cs) ! j) = ''console.error''"
  shows "i < j"
proof -
  have "i < length ps"
  proof (rule ccontr)
    assume "\<not> i < length ps"
    with i have "(ps @ cs) ! i \<in> set cs" by (simp add: nth_append)
    with C ti show False by auto
  qed
  moreover have "length ps \<le> j"
  proof (rule ccontr)
    assume "\<not> length ps \<le> j"
    then have "(ps @ cs) ! j \<in> set ps" by (simp add: nth_append)
    with P tj show False by auto
  qed
  ultimately show ?thesis by simp
qed


lemma console_errors_mem:
  "Console msg \<in> set evs \<Longrightarrow> msg_type msg = ''error'' \<Longrightarrow>
   \<not> includes_str (msg_text msg) ''Failed to load resource'' \<Longrightarrow>
   \<lparr>etype = ''console.error'', emessage = Some (msg_text msg), estack = None\<rparr>
     \<in> set (console_errors evs)"
  by (induction evs rule: console_errors.induct) auto

text \<open>Every entry of the console-error sequence comes from an error message without the
  marker.\<close>

lemma console_errors_origin:
  "e \<in> set (console_errors evs) \<Longrightarrow>
   \<exists>msg. Console msg \<in> set evs \<and> msg_type msg = ''error''
     \<and> \<not> includes_str (msg_text msg) ''Failed to load resource''
     \<and> e = \<lparr>etype = ''console.error'', emessage = Some (msg_text msg), estack = None\<rparr>"
  by (induction evs rule: console_errors.induct) (auto split: if_splits)

lemma console_lines_mem:
  "Console msg \<in> set evs \<Longrightarrow> set (console_line msg) \<subseteq> set (console_lines evs)"
  by (induction evs rule: console_lines.induct) auto

text \<open>Every line comes from a message, and is the line of that message.\<close>

lemma console_lines_origin:
  "l \<in> set (console_lines evs) \<Longrightarrow>
   \<exists>msg. Console msg \<in> set evs \<and> l \<in> set (console_line msg)"
  by (induction evs rule: console_lines.induct) auto

text \<open>A line \<open>Console error: t\<close> is written only for an error message with the text \<open>t\<close>
  and without the marker.\<close>

lemma console_line_error:
  "''Console error: '' @ t @ [CHR 0x0A] \<in> set (console_line msg) \<Longrightarrow>
   msg_type msg = ''error'' \<and> msg_text msg = t
   \<and> \<not> includes_str t ''Failed to load resource''"
  by (auto simp: console_line_def split: if_splits)

lemma evaluate_complete:
  assumes "existsSync w p" "launch w = None" "newPage w = None"
    "snd (goto w (''file://'' @ resolve w p)) = None" "snd (close w) = None"
    "PageError Nullish \<notin> set (delivered w p)"
    "x \<in> set (page_errors (observed w p) @ console_errors (observed w p))"
  shows "\<exists>es. fst (evaluateP5Sketch w p) =
            Inr \<lparr>success = False, message = ''Runtime errors detected.'', errors = Some es\<rparr>
          \<and> x \<in> set es"
proof -
  from assms(7) have ne: "page_errors (observed w p) @ console_errors (observed w p) \<noteq> []"
    by auto
  from evaluate_ok(1) [OF assms(1-4,6)] assms(5) ne
  have "fst (evaluateP5Sketch w p) =
      Inr \<lparr>success = False, message = ''Runtime errors detected.'',
           errors = Some (page_errors (observed w p) @ console_errors (observed w p))\<rparr>"
    by simp
  then show ?thesis using assms(7) by (intro exI conjI)
qed


section \<open>The sample worlds, evaluated\<close>

lemma sample_world_simps:
  "existsSync sample_world p = (p = ''sketch.html'')"
  "resolve sample_world p = ''/work/'' @ p"
  "launch sample_world = None"
  "newPage sample_world = None"
  "snd (goto sample_world u) = None"
  "snd (close sample_world) = None"
  "PageError Nullish \<notin> set (delivered sample_world p)"
  by (simp_all add: sample_world_def delivered_def)

lemma quiet_world_simps:
  "existsSync quiet_world p = (p = ''sketch.html'')"
  "resolve quiet_world p = ''/work/'' @ p"
  "launch quiet_world = None"
  "newPage quiet_world = None"
  "snd (goto quiet_world u) = None"
  "snd (close quiet_world) = None"
  "observed quiet_world p = []"
  "delivered quiet_world p = []"
  by (simp_all add: quiet_world_def sample_world_def observed_def delivered_def)

lemma timeout_world_simps:
  "existsSync timeout_world p = (p = ''sketch.html'')"
  "resolve timeout_world p = ''/work/'' @ p"
  "launch timeout_world = None"
  "newPage timeout_world = None"
  "snd (goto timeout_world u) = Some sample_failure"
  "snd (close timeout_world) = None"
  "PageError Nullish \<notin> set (delivered timeout_world p)"
  "PageError (Value (Some ''Failed to load resource: x'') (Some ''at a''))
     \<in> set (fst (goto timeout_world u))"
  by (simp_all add: timeout_world_def sample_world_def delivered_def)

lemma null_world_simps:
  "existsSync null_world p = (p = ''sketch.html'')"
  "resolve null_world p = ''/work/'' @ p"
  "launch null_world = None"
  "newPage null_world = None"
  "snd (goto null_world u) = None"
  "snd (close null_world) = None"
  "PageError Nullish \<in> set (delivered null_world p)"
  by (simp_all add: null_world_def quiet_world_def sample_world_def delivered_def)

lemma sample_collected:
  "page_errors (observed sample_world p) =
     [\<lparr>etype = ''pageerror'', emessage = Some ''Failed to load resource: x'',
        estack = Some ''at a''\<rparr>,
      \<lparr>etype = ''pageerror'', emessage = Some ''foo is not defined'', estack = None\<rparr>]"
  "console_errors (observed sample_world p) =
     [\<lparr>etype = ''console.error'', emessage = Some ''boom'', estack = None\<rparr>]"
  by (simp_all add: observed_def sample_world_def)

lemma sample_lines:
  "console_lines (delivered sample_world p) =
     [''Console error: boom'' @ [CHR 0x0A], ''Console warning: slow'' @ [CHR 0x0A],
      ''Console log: hi'' @ [CHR 0x0A]]"
  by (simp add: delivered_def sample_world_def console_line_def)

lemma sample_run:
  "fst (evaluateP5Sketch sample_world ''sketch.html'') =
     Inr \<lparr>success = False, message = ''Runtime errors detected.'',
          errors = Some
            [\<lparr>etype = ''pageerror'', emessage = Some ''Failed to load resource: x'',
               estack = Some ''at a''\<rparr>,
             \<lparr>etype = ''pageerror'', emessage = Some ''foo is not defined'', estack = None\<rparr>,
             \<lparr>etype = ''console.error'', emessage = Some ''boom'', estack = None\<rparr>]\<rparr>"
  using evaluate_ok(1) [of sample_world "''sketch.html''"]
  by (simp add: sample_world_simps sample_collected)

lemma quiet_run:
  "fst (evaluateP5Sketch quiet_world ''sketch.html'') =
     Inr \<lparr>success = True, message = ''No runtime errors detected.'', errors = None\<rparr>"
  using evaluate_ok(1) [of quiet_world "''sketch.html''"]
  by (simp add: quiet_world_simps)

lemma timeout_run:
  "fst (evaluateP5Sketch timeout_world ''sketch.html'') =
     Inr \<lparr>success = False,
          message = ''Puppeteer or navigation error: Navigation timeout of 30000 ms exceeded'',
          errors = Some [\<lparr>etype = ''puppeteer_error'',
                          emessage = Some ''Navigation timeout of 30000 ms exceeded'',
                          estack = Some ''TimeoutError''\<rparr>]\<rparr>"
  using evaluate_goto_fails(1) [of timeout_world "''sketch.html''" sample_failure]
  by (simp add: timeout_world_simps sample_failure_def)

lemma null_run:
  "fst (evaluateP5Sketch null_world ''sketch.html'') = Inl Killed"
  by (simp add: evaluate_killed_iff null_world_simps)

lemma close_rejects_run:
  "fst (evaluateP5Sketch (quiet_world\<lparr>close := ([], Some sample_failure)\<rparr>) ''sketch.html'') =
     Inl (Rejected sample_failure)"
  using evaluate_ok(1) [of "quiet_world\<lparr>close := ([], Some sample_failure)\<rparr>" "''sketch.html''"]
  by (simp add: quiet_world_def sample_world_def delivered_def)


lemma delivered_tried: "delivered w p = tried w p @ fst (close w)"
  by (simp add: delivered_def tried_def)

section \<open>Events before and after the death of the process\<close>

lemma heard_no_null: "PageError Nullish \<notin> set (heard evs)"
  by (auto simp: heard_def dest: set_takeWhileD)

lemma heard_all: "PageError Nullish \<notin> set evs \<Longrightarrow> heard evs = evs"
  by (auto simp: heard_def)

lemma heard_append:
  "heard (xs @ ys) = (if PageError Nullish \<in> set xs then heard xs else xs @ heard ys)"
  by (auto simp: heard_def takeWhile_append)

lemma heard_subset: "set (heard evs) \<subseteq> set evs"
  by (auto simp: heard_def dest: set_takeWhileD)

lemma deliver_all_append: "deliver_all (xs @ ys) st = deliver_all ys (deliver_all xs st)"
  by (simp add: deliver_all_def)

lemma deliver_all_dead: "st_killed st \<Longrightarrow> deliver_all evs st = st"
  unfolding deliver_all_def
proof (induction evs arbitrary: st)
  case Nil
  then show ?case by simp
next
  case (Cons ev evs)
  then have "deliver ev st = st" by (cases ev) simp_all
  with Cons show ?case by simp
qed

text \<open>From the throw of \<open>null\<close> on, nothing is written and nothing is pushed.\<close>

lemma deliver_all_rest:
  assumes "''pageerror'' \<in> set (st_listeners st)"
  shows "st_trace (deliver_all (dropWhile (\<lambda>ev. ev \<noteq> PageError Nullish) evs) st) = st_trace st
       \<and> st_errors (deliver_all (dropWhile (\<lambda>ev. ev \<noteq> PageError Nullish) evs) st) = st_errors st
       \<and> st_consoleErrors (deliver_all (dropWhile (\<lambda>ev. ev \<noteq> PageError Nullish) evs) st) =
           st_consoleErrors st"
proof (cases "dropWhile (\<lambda>ev. ev \<noteq> PageError Nullish) evs")
  case Nil
  show ?thesis unfolding Nil by (simp add: deliver_all_def)
next
  case (Cons ev rest)
  then have ev: "ev = PageError Nullish"
    using hd_dropWhile [of "\<lambda>ev. ev \<noteq> PageError Nullish" evs] by auto
  have k: "st_killed (deliver ev st)"
    using assms by (simp add: ev)
  have same: "st_trace (deliver ev st) = st_trace st \<and> st_errors (deliver ev st) = st_errors st
      \<and> st_consoleErrors (deliver ev st) = st_consoleErrors st"
    by (simp add: ev)
  have "deliver_all (ev # rest) st = deliver_all rest (deliver ev st)"
    by (simp add: deliver_all_def)
  also have "\<dots> = deliver ev st" using k by (rule deliver_all_dead)
  finally show ?thesis using same Cons by simp
qed

text \<open>
  The events delivered to a live process with both listeners attached: the arrays and
  the stream grow by what the specification says of the events heard.
\<close>

lemma deliver_all_heard:
  assumes "\<not> st_killed st" "''pageerror'' \<in> set (st_listeners st)"
    "''console'' \<in> set (st_listeners st)"
  shows "st_errors (deliver_all evs st) = st_errors st @ page_errors (heard evs)"
    and "st_consoleErrors (deliver_all evs st) = st_consoleErrors st @ console_errors (heard evs)"
    and "stderr_writes (st_trace (deliver_all evs st)) =
         stderr_writes (st_trace st) @ console_lines (heard evs)"
proof -
  let ?rest = "dropWhile (\<lambda>ev. ev \<noteq> PageError Nullish) evs"
  let ?mid = "deliver_all (heard evs) st"
  have split: "deliver_all evs st = deliver_all ?rest ?mid"
    using deliver_all_append [of "heard evs" ?rest st] by (simp add: heard_def)
  have l: "''pageerror'' \<in> set (st_listeners ?mid)"
    using assms(2) by (simp add: deliver_all_listeners)
  note rest = deliver_all_rest [OF l, of evs]
  note mid = deliver_all_steps [OF assms heard_no_null [of evs]]
  show "st_errors (deliver_all evs st) = st_errors st @ page_errors (heard evs)"
    unfolding split using rest mid by simp
  show "st_consoleErrors (deliver_all evs st) = st_consoleErrors st @ console_errors (heard evs)"
    unfolding split using rest mid by simp
  show "stderr_writes (st_trace (deliver_all evs st)) =
         stderr_writes (st_trace st) @ console_lines (heard evs)"
    unfolding split using rest mid by simp
qed

text \<open>
  The \<open>try\<close> block of a run that attaches the listeners: the process is dead at its end
  exactly when \<open>null\<close> was thrown, and the arrays and the stream hold what the
  specification says of the events heard.
\<close>

lemma try_block_heard:
  assumes "launch w = None" "newPage w = None" "\<not> st_killed st0"
  shows "(fst (try_block w (''file://'' @ resolve w p) st0) = Inl Killed)
           = (PageError Nullish \<in> set (tried w p))"
    and "st_killed (snd (snd (try_block w (''file://'' @ resolve w p) st0)))
           = (PageError Nullish \<in> set (tried w p))"
    and "fst (snd (try_block w (''file://'' @ resolve w p) st0)) = True"
    and "st_listeners (snd (snd (try_block w (''file://'' @ resolve w p) st0))) =
         st_listeners st0 @ [''pageerror'', ''console'']"
    and "st_errors (snd (snd (try_block w (''file://'' @ resolve w p) st0))) =
         st_errors st0 @ page_errors (heard (tried w p))"
    and "st_consoleErrors (snd (snd (try_block w (''file://'' @ resolve w p) st0))) =
         st_consoleErrors st0 @ console_errors (heard (tried w p))"
    and "stderr_writes (st_trace (snd (snd (try_block w (''file://'' @ resolve w p) st0)))) =
         stderr_writes (st_trace st0) @ console_lines (heard (tried w p))"
proof -
  let ?url = "''file://'' @ resolve w p"
  let ?st4 = "log (Goto ?url ''domcontentloaded'' 30000)
                (page_on ''console'' (page_on ''pageerror'' (log NewPage (log Launch st0))))"
  let ?st5 = "deliver_all (fst (goto w ?url)) ?st4"
  let ?st5' = "log (SetTimeout 5000) ?st5"
  let ?st6 = "deliver_all (timeout_events w) ?st5'"
  have k4: "\<not> st_killed ?st4" and l4: "''pageerror'' \<in> set (st_listeners ?st4)"
    "''console'' \<in> set (st_listeners ?st4)"
    and ls4: "st_listeners ?st4 = st_listeners st0 @ [''pageerror'', ''console'']"
    and b4: "st_errors ?st4 = st_errors st0" "st_consoleErrors ?st4 = st_consoleErrors st0"
      "stderr_writes (st_trace ?st4) = stderr_writes (st_trace st0)"
    using assms(3) by (simp_all add: log_simps page_on_simps stderr_writes_append)
  note h5 = deliver_all_heard [OF k4 l4, of "fst (goto w ?url)"]
  have k5: "st_killed ?st5 = (PageError Nullish \<in> set (fst (goto w ?url)))"
    using k4 l4 by (simp add: deliver_all_killed)
  have ls5: "st_listeners ?st5 = st_listeners st0 @ [''pageerror'', ''console'']"
    using ls4 by (simp add: deliver_all_listeners)
  have all: "((fst (try_block w ?url st0) = Inl Killed) = (PageError Nullish \<in> set (tried w p)))
      \<and> (st_killed (snd (snd (try_block w ?url st0))) = (PageError Nullish \<in> set (tried w p)))
      \<and> fst (snd (try_block w ?url st0)) = True
      \<and> st_listeners (snd (snd (try_block w ?url st0))) =
         st_listeners st0 @ [''pageerror'', ''console'']
      \<and> st_errors (snd (snd (try_block w ?url st0))) =
         st_errors st0 @ page_errors (heard (tried w p))
      \<and> st_consoleErrors (snd (snd (try_block w ?url st0))) =
         st_consoleErrors st0 @ console_errors (heard (tried w p))
      \<and> stderr_writes (st_trace (snd (snd (try_block w ?url st0)))) =
         stderr_writes (st_trace st0) @ console_lines (heard (tried w p))"
  proof (cases "PageError Nullish \<in> set (fst (goto w ?url))")
    case True
    then have t: "try_block w ?url st0 = (Inl Killed, True, ?st5)"
      using assms(1,2) k5 by (simp add: try_block_def Let_def)
    from True have hd: "heard (tried w p) = heard (fst (goto w ?url))"
      and n: "PageError Nullish \<in> set (tried w p)"
      by (simp_all add: tried_def heard_append)
    show ?thesis
      unfolding t hd using n k5 True ls5 h5 b4 by simp
  next
    case g: False
    then have hg: "heard (fst (goto w ?url)) = fst (goto w ?url)" by (rule heard_all)
    from g k5 have nk5: "\<not> st_killed ?st5" by simp
    show ?thesis
    proof (cases "snd (goto w ?url)")
      case (Some e)
      then have t: "try_block w ?url st0 = (Inl (Rejected e), True, ?st5)"
        using assms(1,2) nk5 by (simp add: try_block_def Let_def)
      from Some g have hd: "heard (tried w p) = fst (goto w ?url)"
        and n: "PageError Nullish \<notin> set (tried w p)"
        by (simp_all add: tried_def heard_all)
      show ?thesis
        unfolding t hd using n nk5 ls5 h5 b4 hg by simp
    next
      case None
      have k5': "\<not> st_killed ?st5'" and l5': "''pageerror'' \<in> set (st_listeners ?st5')"
        "''console'' \<in> set (st_listeners ?st5')"
        using nk5 ls5 by (simp_all add: log_simps)
      note h6 = deliver_all_heard [OF k5' l5', of "timeout_events w"]
      have k6: "st_killed ?st6 = (PageError Nullish \<in> set (timeout_events w))"
        using k5' l5' by (simp add: deliver_all_killed)
      have ls6: "st_listeners ?st6 = st_listeners st0 @ [''pageerror'', ''console'']"
        using ls5 by (simp add: deliver_all_listeners log_simps)
      from None g have hd: "heard (tried w p) = fst (goto w ?url) @ heard (timeout_events w)"
        and n: "(PageError Nullish \<in> set (tried w p))
                = (PageError Nullish \<in> set (timeout_events w))"
        by (simp_all add: tried_def heard_append)
      have b6: "st_errors ?st6 = st_errors st0 @ page_errors (heard (tried w p))"
        "st_consoleErrors ?st6 = st_consoleErrors st0 @ console_errors (heard (tried w p))"
        "stderr_writes (st_trace ?st6) =
           stderr_writes (st_trace st0) @ console_lines (heard (tried w p))"
        unfolding hd using h6 h5 b4 hg
        by (simp_all add: log_simps stderr_writes_append page_errors_append
            console_errors_append console_lines_append)
      show ?thesis
      proof (cases "PageError Nullish \<in> set (timeout_events w)")
        case True
        then have t: "try_block w ?url st0 = (Inl Killed, True, ?st6)"
          using assms(1,2) nk5 None k6 by (simp add: try_block_def Let_def)
        have nt: "PageError Nullish \<in> set (tried w p)" using n True by simp
        have kk: "st_killed ?st6" using k6 True by simp
        show ?thesis unfolding t fst_conv snd_conv
          by (intro conjI) (simp_all only: nt kk ls6 b6 simp_thms)
      next
        case False
        have nt: "PageError Nullish \<notin> set (tried w p)" using n False by simp
        have kk: "\<not> st_killed ?st6" using k6 False by simp
        show ?thesis
        proof (cases "st_errors ?st6 @ st_consoleErrors ?st6 = []")
          case e: True
          have t: "try_block w ?url st0 =
              (Inr \<lparr>success = True, message = ''No runtime errors detected.'',
                    errors = None\<rparr>,
               True,
               log (ConsoleLog [Str ''Evaluation complete: No runtime errors detected.''])
                 ?st6)"
            using assms(1,2) nk5 None kk e by (simp add: try_block_def Let_def)
          show ?thesis unfolding t fst_conv snd_conv log_simps
            by (intro conjI)
               (simp_all only: nt kk ls6 b6 simp_thms sum.distinct stderr_writes_append
                  stderr_writes.simps append_Nil2)
        next
          case e: False
          have t: "try_block w ?url st0 =
              (Inr \<lparr>success = False, message = ''Runtime errors detected.'',
                    errors = Some (st_errors ?st6 @ st_consoleErrors ?st6)\<rparr>,
               True,
               log (ConsoleLog [Str (''Evaluation complete: Found '' @
                      toString (length (st_errors ?st6 @ st_consoleErrors ?st6)) @
                      '' runtime errors.'')]) ?st6)"
            using assms(1,2) nk5 None kk e by (simp add: try_block_def Let_def)
          show ?thesis unfolding t fst_conv snd_conv log_simps
            by (intro conjI)
               (simp_all only: nt kk ls6 b6 simp_thms sum.distinct stderr_writes_append
                  stderr_writes.simps append_Nil2)
        qed
      qed
    qed
  qed
  from all show "(fst (try_block w ?url st0) = Inl Killed) = (PageError Nullish \<in> set (tried w p))"
    and "st_killed (snd (snd (try_block w ?url st0))) = (PageError Nullish \<in> set (tried w p))"
    and "fst (snd (try_block w ?url st0)) = True"
    and "st_listeners (snd (snd (try_block w ?url st0))) =
         st_listeners st0 @ [''pageerror'', ''console'']"
    and "st_errors (snd (snd (try_block w ?url st0))) =
         st_errors st0 @ page_errors (heard (tried w p))"
    and "st_consoleErrors (snd (snd (try_block w ?url st0))) =
         st_consoleErrors st0 @ console_errors (heard (tried w p))"
    and "stderr_writes (st_trace (snd (snd (try_block w ?url st0)))) =
         stderr_writes (st_trace st0) @ console_lines (heard (tried w p))"
    by simp_all
qed

lemma settle_heard:
  assumes "\<not> st_killed (snd c)" "''pageerror'' \<in> set (st_listeners (snd c))"
    "''console'' \<in> set (st_listeners (snd c))"
  shows "stderr_writes (snd (settle w True c)) =
         stderr_writes (st_trace (snd c)) @ console_lines (heard (fst (close w)))"
proof -
  have "\<not> st_killed (log Close (snd c))" "''pageerror'' \<in> set (st_listeners (log Close (snd c)))"
    "''console'' \<in> set (st_listeners (log Close (snd c)))"
    using assms by (simp_all add: log_simps)
  from deliver_all_heard(3) [OF this, of "fst (close w)"] show ?thesis
    by (simp add: settle_def finally_block_def Let_def log_simps stderr_writes_append)
qed

text \<open>
  In a run that attaches the listeners, stderr is given the lines of the messages that
  reach the live process, in order.
\<close>

lemma evaluate_stderr_heard:
  assumes "existsSync w p" "launch w = None" "newPage w = None"
  shows "stderr_writes (snd (evaluateP5Sketch w p)) = console_lines (heard (delivered w p))"
proof -
  let ?url = "''file://'' @ resolve w p"
  let ?st0 = "\<lparr>st_errors = [], st_consoleErrors = [], st_listeners = [],
                 st_trace = [ConsoleLog [Str (''Evaluating P5.js sketch from: '' @ ?url)]],
                 st_killed = False\<rparr>"
  let ?t = "try_block w ?url ?st0"
  let ?S = "snd (snd ?t)"
  have k: "\<not> st_killed ?st0" by simp
  note th = try_block_heard [OF assms(2,3) k, of p]
  have out: "stderr_writes (st_trace ?S) = console_lines (heard (tried w p))"
    using th(7) by simp
  have ls: "''pageerror'' \<in> set (st_listeners ?S)" "''console'' \<in> set (st_listeners ?S)"
    using th(4) by simp_all
  show ?thesis
  proof (cases "PageError Nullish \<in> set (tried w p)")
    case True
    with th(1) have "fst ?t = Inl Killed" by simp
    then have "evaluateP5Sketch w p = (Inl Killed, st_trace ?S)"
      using assms(1) by (simp add: evaluate_unfold Let_def)
    moreover have "heard (delivered w p) = heard (tried w p)"
      using True by (simp add: delivered_tried heard_append)
    ultimately show ?thesis using out by simp
  next
    case False
    with th(1,2) have nk: "fst ?t \<noteq> Inl Killed" "\<not> st_killed ?S" by simp_all
    have hd: "heard (delivered w p) = tried w p @ heard (fst (close w))"
      "heard (tried w p) = tried w p"
      using False by (simp_all add: delivered_tried heard_append heard_all)
    show ?thesis
    proof (cases "fst ?t")
      case (Inl f)
      with nk(1) obtain e where f: "f = Rejected e" by (cases f) simp_all
      have ev: "evaluateP5Sketch w p = settle w True (catch_block e ?S)"
        using assms(1) Inl f th(3) by (simp add: evaluate_unfold Let_def)
      have "stderr_writes (snd (settle w True (catch_block e ?S))) =
          stderr_writes (st_trace (snd (catch_block e ?S))) @ console_lines (heard (fst (close w)))"
        using nk(2) ls by (intro settle_heard) (simp_all add: catch_simps)
      then show ?thesis
        unfolding ev hd using out hd(2) by (simp add: catch_simps console_lines_append)
    next
      case (Inr v)
      have ev: "evaluateP5Sketch w p = settle w True (v, ?S)"
        using assms(1) Inr th(3) by (simp add: evaluate_unfold Let_def)
      have "stderr_writes (snd (settle w True (v, ?S))) =
          stderr_writes (st_trace (snd (v, ?S))) @ console_lines (heard (fst (close w)))"
        using nk(2) ls by (intro settle_heard) simp_all
      then show ?thesis
        unfolding ev hd using out hd(2) by (simp add: console_lines_append)
    qed
  qed
qed

section \<open>The claims\<close>

text \<open>
  C1. When the input path names no existing file, the function resolves to the result
  with \<open>success = false\<close> and the message \<open>HTML file not found: <path>\<close>, and the
  browser is never launched: the call makes no browser call at all.
\<close>

theorem C1_file_not_found:
  assumes "\<not> existsSync w p"
  shows "fst (evaluateP5Sketch w p) =
           Inr \<lparr>success = False, message = ''HTML file not found: '' @ p, errors = None\<rparr>
         \<and> Launch \<notin> set (snd (evaluateP5Sketch w p))
         \<and> calls (snd (evaluateP5Sketch w p)) = []"
  using assms by (simp add: evaluate_missing calls_Cons calls_Nil)

theorem C1_file_not_found_witness:
  "\<not> existsSync sample_world ''missing.html''
   \<and> fst (evaluateP5Sketch sample_world ''missing.html'') =
       Inr \<lparr>success = False, message = ''HTML file not found: missing.html'', errors = None\<rparr>
   \<and> Launch \<notin> set (snd (evaluateP5Sketch sample_world ''missing.html''))
   \<and> calls (snd (evaluateP5Sketch sample_world ''missing.html'')) = []"
proof -
  have h: "\<not> existsSync sample_world ''missing.html''"
    by (simp add: sample_world_def)
  from C1_file_not_found [OF h] h show ?thesis by simp
qed

text \<open>
  C2. A call that gets past launch, page creation and navigation, in which no listener
  throws and whose \<open>browser.close()\<close> resolves (an evaluation that completes), returns a
  result; its \<open>success\<close> is true exactly when
  neither channel collected an entry (the entries are those of every event delivered from
  the start of navigation to the end of the wait). On success the result is exactly
  \<open>{success: true, message: "No runtime errors detected."}\<close>; otherwise the message is
  \<open>Runtime errors detected.\<close> and the collected entries are attached.
\<close>

theorem C2_success_iff_no_errors:
  assumes "existsSync w p" and "launch w = None" and "newPage w = None"
    and "snd (goto w (''file://'' @ resolve w p)) = None"
    and "snd (close w) = None"
    and "PageError Nullish \<notin> set (delivered w p)"
  shows "\<exists>r. fst (evaluateP5Sketch w p) = Inr r
          \<and> (success r \<longleftrightarrow> page_errors (observed w p) @ console_errors (observed w p) = [])
          \<and> (success r \<longrightarrow>
               r = \<lparr>success = True, message = ''No runtime errors detected.'', errors = None\<rparr>)
          \<and> (\<not> success r \<longrightarrow>
               r = \<lparr>success = False, message = ''Runtime errors detected.'',
                    errors = Some (page_errors (observed w p) @ console_errors (observed w p))\<rparr>)"
  using evaluate_ok(1) [OF assms(1-4,6)] assms(5) by simp

theorem C2_success_iff_no_errors_witness:
  "fst (evaluateP5Sketch quiet_world ''sketch.html'') =
     Inr \<lparr>success = True, message = ''No runtime errors detected.'', errors = None\<rparr>
   \<and> fst (evaluateP5Sketch sample_world ''sketch.html'') =
     Inr \<lparr>success = False, message = ''Runtime errors detected.'',
          errors = Some
            [\<lparr>etype = ''pageerror'', emessage = Some ''Failed to load resource: x'',
               estack = Some ''at a''\<rparr>,
             \<lparr>etype = ''pageerror'', emessage = Some ''foo is not defined'', estack = None\<rparr>,
             \<lparr>etype = ''console.error'', emessage = Some ''boom'', estack = None\<rparr>]\<rparr>"
proof -
  have "existsSync quiet_world ''sketch.html''" and "launch quiet_world = None"
    and "newPage quiet_world = None"
    and "snd (goto quiet_world (''file://'' @ resolve quiet_world ''sketch.html'')) = None"
    and "snd (close quiet_world) = None"
    and "PageError Nullish \<notin> set (delivered quiet_world ''sketch.html'')"
    by (simp_all add: quiet_world_simps)
  from C2_success_iff_no_errors [OF this] obtain r where
    r: "fst (evaluateP5Sketch quiet_world ''sketch.html'') = Inr r"
    and iff: "success r \<longleftrightarrow>
      page_errors (observed quiet_world ''sketch.html'') @
      console_errors (observed quiet_world ''sketch.html'') = []"
    and ok: "success r \<longrightarrow>
      r = \<lparr>success = True, message = ''No runtime errors detected.'', errors = None\<rparr>"
    by (elim exE conjE)
  from iff have "success r" by (simp add: quiet_world_simps)
  with ok r have q: "fst (evaluateP5Sketch quiet_world ''sketch.html'') =
     Inr \<lparr>success = True, message = ''No runtime errors detected.'', errors = None\<rparr>"
    by simp
  have "existsSync sample_world ''sketch.html''" and "launch sample_world = None"
    and "newPage sample_world = None"
    and "snd (goto sample_world (''file://'' @ resolve sample_world ''sketch.html'')) = None"
    and "snd (close sample_world) = None"
    and "PageError Nullish \<notin> set (delivered sample_world ''sketch.html'')"
    by (simp_all add: sample_world_simps)
  from C2_success_iff_no_errors [OF this] obtain r' where
    r': "fst (evaluateP5Sketch sample_world ''sketch.html'') = Inr r'"
    and iff': "success r' \<longleftrightarrow>
      page_errors (observed sample_world ''sketch.html'') @
      console_errors (observed sample_world ''sketch.html'') = []"
    and bad: "\<not> success r' \<longrightarrow>
      r' = \<lparr>success = False, message = ''Runtime errors detected.'',
            errors = Some (page_errors (observed sample_world ''sketch.html'') @
                           console_errors (observed sample_world ''sketch.html''))\<rparr>"
    by (elim exE conjE)
  from iff' have "\<not> success r'" by (simp add: sample_collected)
  with bad r' have s: "fst (evaluateP5Sketch sample_world ''sketch.html'') =
     Inr \<lparr>success = False, message = ''Runtime errors detected.'',
          errors = Some
            [\<lparr>etype = ''pageerror'', emessage = Some ''Failed to load resource: x'',
               estack = Some ''at a''\<rparr>,
             \<lparr>etype = ''pageerror'', emessage = Some ''foo is not defined'', estack = None\<rparr>,
             \<lparr>etype = ''console.error'', emessage = Some ''boom'', estack = None\<rparr>]\<rparr>"
    by (simp add: sample_collected)
  from q s show ?thesis by (rule conjI)
qed

text \<open>
  C3. When the function resolves to the result whose message is
  \<open>Runtime errors detected.\<close>, its \<open>errors\<close> is the page-error sequence followed by the
  console-error sequence, each in the order its events arrived; so an entry of type
  \<open>pageerror\<close> always stands before an entry of type \<open>console.error\<close>, whatever the
  order in which the two channels delivered their events.
\<close>

theorem C3_page_errors_first:
  assumes "fst (evaluateP5Sketch w p) = Inr r"
    and "message r = ''Runtime errors detected.''"
  shows "\<exists>es. errors r = Some es
          \<and> es = page_errors (observed w p) @ console_errors (observed w p)
          \<and> (\<forall>i j. i < length es \<and> j < length es \<and> etype (es ! i) = ''pageerror''
                \<and> etype (es ! j) = ''console.error'' \<longrightarrow> i < j)"
proof -
  let ?ps = "page_errors (observed w p)" and ?cs = "console_errors (observed w p)"
  from evaluate_Inr_cases [OF assms(1)] assms(2)
  have "r = (if ?ps @ ?cs = []
             then \<lparr>success = True, message = ''No runtime errors detected.'', errors = None\<rparr>
             else \<lparr>success = False, message = ''Runtime errors detected.'',
                   errors = Some (?ps @ ?cs)\<rparr>)"
    by auto
  with assms(2) have es: "errors r = Some (?ps @ ?cs)"
    by (auto split: if_splits)
  have "\<forall>i j. i < length (?ps @ ?cs) \<and> j < length (?ps @ ?cs)
          \<and> etype ((?ps @ ?cs) ! i) = ''pageerror''
          \<and> etype ((?ps @ ?cs) ! j) = ''console.error'' \<longrightarrow> i < j"
    using typed_append_order [of ?ps ?cs] page_errors_etype console_errors_etype
    by blast
  with es show ?thesis by blast
qed

text \<open>
  In the sample world the console error \<open>boom\<close> arrives first, before any exception,
  and is reported last.
\<close>

theorem C3_page_errors_first_witness:
  "fst (evaluateP5Sketch sample_world ''sketch.html'') =
     Inr \<lparr>success = False, message = ''Runtime errors detected.'',
          errors = Some
            [\<lparr>etype = ''pageerror'', emessage = Some ''Failed to load resource: x'',
               estack = Some ''at a''\<rparr>,
             \<lparr>etype = ''pageerror'', emessage = Some ''foo is not defined'', estack = None\<rparr>,
             \<lparr>etype = ''console.error'', emessage = Some ''boom'', estack = None\<rparr>]\<rparr>
   \<and> hd (fst (goto sample_world ''file:///work/sketch.html'')) =
       Console \<lparr>msg_type = ''error'', msg_text = ''boom''\<rparr>
   \<and> page_errors (observed sample_world ''sketch.html'') @
       console_errors (observed sample_world ''sketch.html'') =
         [\<lparr>etype = ''pageerror'', emessage = Some ''Failed to load resource: x'',
            estack = Some ''at a''\<rparr>,
          \<lparr>etype = ''pageerror'', emessage = Some ''foo is not defined'', estack = None\<rparr>,
          \<lparr>etype = ''console.error'', emessage = Some ''boom'', estack = None\<rparr>]"
proof -
  let ?r = "\<lparr>success = False, message = ''Runtime errors detected.'',
          errors = Some
            [\<lparr>etype = ''pageerror'', emessage = Some ''Failed to load resource: x'',
               estack = Some ''at a''\<rparr>,
             \<lparr>etype = ''pageerror'', emessage = Some ''foo is not defined'', estack = None\<rparr>,
             \<lparr>etype = ''console.error'', emessage = Some ''boom'', estack = None\<rparr>]\<rparr>"
  have m: "message ?r = ''Runtime errors detected.''" by simp
  from C3_page_errors_first [OF sample_run m] obtain es where
    "errors ?r = Some es"
    "es = page_errors (observed sample_world ''sketch.html'') @
          console_errors (observed sample_world ''sketch.html'')"
    by (elim exE conjE)
  then have "page_errors (observed sample_world ''sketch.html'') @
       console_errors (observed sample_world ''sketch.html'') =
         [\<lparr>etype = ''pageerror'', emessage = Some ''Failed to load resource: x'',
            estack = Some ''at a''\<rparr>,
          \<lparr>etype = ''pageerror'', emessage = Some ''foo is not defined'', estack = None\<rparr>,
          \<lparr>etype = ''console.error'', emessage = Some ''boom'', estack = None\<rparr>]"
    by simp
  moreover have "hd (fst (goto sample_world ''file:///work/sketch.html'')) =
       Console \<lparr>msg_type = ''error'', msg_text = ''boom''\<rparr>"
    by (simp add: sample_world_def)
  ultimately show ?thesis using sample_run by simp
qed

text \<open>
  C5. When the file exists and the launch, the creation of the page or the navigation
  rejects with \<open>e\<close> (a navigation timeout is such a rejection: \<open>page.goto\<close> is called once,
  with the timeout 30000), no listener throws while the navigation and the closing are
  awaited, and \<open>browser.close()\<close> resolves if it is called, the function
  resolves to the result with \<open>success = false\<close> and exactly one entry, of type
  \<open>puppeteer_error\<close>, carrying the message and the stack of \<open>e\<close>. Nothing is retried: the
  browser calls of the run are the ones listed, each made once.
\<close>

theorem C5_failure_is_puppeteer_error:
  assumes "existsSync w p"
    and "launch w = Some e
         \<or> (launch w = None \<and> newPage w = Some e)
         \<or> (launch w = None \<and> newPage w = None
             \<and> snd (goto w (''file://'' @ resolve w p)) = Some e)"
    and "launch w = None \<longrightarrow> snd (close w) = None"
    and "launch w = None \<and> newPage w = None \<longrightarrow>
         PageError Nullish \<notin> set (delivered w p)"
  shows "fst (evaluateP5Sketch w p) =
           Inr \<lparr>success = False,
                message = ''Puppeteer or navigation error: '' @ err_message e,
                errors = Some [\<lparr>etype = ''puppeteer_error'', emessage = Some (err_message e),
                                estack = err_stack e\<rparr>]\<rparr>
         \<and> calls (snd (evaluateP5Sketch w p)) =
             (if launch w \<noteq> None then [Launch]
              else if newPage w \<noteq> None then [Launch, NewPage, Close]
              else [Launch, NewPage, PageOn ''pageerror'', PageOn ''console'',
                    Goto (''file://'' @ resolve w p) ''domcontentloaded'' 30000, Close])
         \<and> count_list (snd (evaluateP5Sketch w p)) Launch = 1
         \<and> count_list (snd (evaluateP5Sketch w p))
               (Goto (''file://'' @ resolve w p) ''domcontentloaded'' 30000) \<le> 1"
proof -
  let ?tr = "snd (evaluateP5Sketch w p)"
  let ?g = "Goto (''file://'' @ resolve w p) ''domcontentloaded'' 30000"
  have cnt: "count_list ?tr Launch = count_list (calls ?tr) Launch"
    "count_list ?tr ?g = count_list (calls ?tr) ?g"
    by (simp_all add: count_calls)
  from assms(2) consider
    (l) "launch w = Some e"
    | (n) "launch w = None" "newPage w = Some e"
    | (g) "launch w = None" "newPage w = None"
          "snd (goto w (''file://'' @ resolve w p)) = Some e"
    by (elim disjE conjE)
  then show ?thesis
  proof cases
    case l
    from evaluate_launch_fails [OF assms(1) l] show ?thesis
      unfolding cnt using l by simp
  next
    case n
    from evaluate_newPage_fails [OF assms(1) n] assms(3) show ?thesis
      unfolding cnt using n by simp
  next
    case g
    from g assms(4) have nn: "PageError Nullish \<notin> set (delivered w p)" by simp
    from evaluate_goto_fails(1,2) [OF assms(1) g nn] assms(3) show ?thesis
      unfolding cnt using g by simp
  qed
qed

theorem C5_failure_is_puppeteer_error_witness:
  "fst (evaluateP5Sketch (sample_world\<lparr>launch := Some sample_failure\<rparr>) ''sketch.html'') =
     Inr \<lparr>success = False,
          message = ''Puppeteer or navigation error: Navigation timeout of 30000 ms exceeded'',
          errors = Some [\<lparr>etype = ''puppeteer_error'',
                          emessage = Some ''Navigation timeout of 30000 ms exceeded'',
                          estack = Some ''TimeoutError''\<rparr>]\<rparr>
   \<and> calls (snd (evaluateP5Sketch (sample_world\<lparr>launch := Some sample_failure\<rparr>)
         ''sketch.html'')) = [Launch]
   \<and> fst (evaluateP5Sketch timeout_world ''sketch.html'') =
     Inr \<lparr>success = False,
          message = ''Puppeteer or navigation error: Navigation timeout of 30000 ms exceeded'',
          errors = Some [\<lparr>etype = ''puppeteer_error'',
                          emessage = Some ''Navigation timeout of 30000 ms exceeded'',
                          estack = Some ''TimeoutError''\<rparr>]\<rparr>
   \<and> calls (snd (evaluateP5Sketch timeout_world ''sketch.html'')) =
       [Launch, NewPage, PageOn ''pageerror'', PageOn ''console'',
        Goto ''file:///work/sketch.html'' ''domcontentloaded'' 30000, Close]"
  using
    C5_failure_is_puppeteer_error
      [of "sample_world\<lparr>launch := Some sample_failure\<rparr>" "''sketch.html''" sample_failure]
    C5_failure_is_puppeteer_error
      [of timeout_world "''sketch.html''" sample_failure]
  by (simp add: sample_world_def sample_failure_def timeout_world_simps)

text \<open>
  C8. The process exits with code 0 exactly when an argument was given, the evaluation
  resolved, and its result has \<open>success = true\<close>; in every other case the code is 1: no
  argument (or an empty one), a missing file, a result with \<open>success = false\<close>, a rejected
  promise, a process that died inside a listener. The exit is the last effect.
\<close>

theorem C8_exit_code:
  "(fst (main w argv) = 0 \<longleftrightarrow>
      2 < length argv \<and> argv ! 2 \<noteq> []
      \<and> (\<exists>r. fst (evaluateP5Sketch w (argv ! 2)) = Inr r \<and> success r))
   \<and> (fst (main w argv) \<noteq> 0 \<longrightarrow> fst (main w argv) = 1)
   \<and> (length argv \<le> 2 \<or> argv ! 2 = [] \<longrightarrow> fst (main w argv) = 1)
   \<and> (2 < length argv \<and> argv ! 2 \<noteq> [] \<and> \<not> existsSync w (argv ! 2) \<longrightarrow>
        fst (main w argv) = 1)
   \<and> (\<forall>r. 2 < length argv \<and> argv ! 2 \<noteq> []
          \<and> fst (evaluateP5Sketch w (argv ! 2)) = Inr r \<and> \<not> success r \<longrightarrow>
        fst (main w argv) = 1)
   \<and> (\<forall>e. 2 < length argv \<and> argv ! 2 \<noteq> []
          \<and> fst (evaluateP5Sketch w (argv ! 2)) = Inl e \<longrightarrow>
        fst (main w argv) = 1)
   \<and> last (snd (main w argv)) = Exit (fst (main w argv))"
proof (cases "2 < length argv \<and> argv ! 2 \<noteq> []")
  case False
  then show ?thesis by (auto simp: main_def)
next
  case True
  obtain x tr where e: "evaluateP5Sketch w (argv ! 2) = (x, tr)"
    by (cases "evaluateP5Sketch w (argv ! 2)")
  show ?thesis
  proof (cases x)
    case (Inl f)
    with True e show ?thesis by (cases f) (simp_all add: main_def)
  next
    case (Inr r)
    have "\<not> existsSync w (argv ! 2) \<Longrightarrow> \<not> success r"
      using e Inr by (auto simp: evaluate_missing)
    with True e Inr show ?thesis by (auto simp: main_def Let_def)
  qed
qed

theorem C8_exit_code_witness:
  "fst (main quiet_world [''node'', ''check-error.js'', ''sketch.html'']) = 0
   \<and> fst (main sample_world [''node'', ''check-error.js'', ''sketch.html'']) = 1
   \<and> fst (main sample_world [''node'', ''check-error.js'']) = 1
   \<and> fst (main sample_world [''node'', ''check-error.js'', ''missing.html'']) = 1
   \<and> fst (main (quiet_world\<lparr>close := ([], Some sample_failure)\<rparr>)
         [''node'', ''check-error.js'', ''sketch.html'']) = 1
   \<and> fst (main null_world [''node'', ''check-error.js'', ''sketch.html'']) = 1"
proof -
  let ?sketch = "[''node'', ''check-error.js'', ''sketch.html'']"
  let ?reported = "\<lparr>success = False, message = ''Runtime errors detected.'',
          errors = Some
            [\<lparr>etype = ''pageerror'', emessage = Some ''Failed to load resource: x'',
               estack = Some ''at a''\<rparr>,
             \<lparr>etype = ''pageerror'', emessage = Some ''foo is not defined'', estack = None\<rparr>,
             \<lparr>etype = ''console.error'', emessage = Some ''boom'', estack = None\<rparr>]\<rparr>"
  note zero = C8_exit_code [of quiet_world ?sketch, THEN conjunct1]
  have "\<exists>r. fst (evaluateP5Sketch quiet_world ''sketch.html'') = Inr r \<and> success r"
    by (rule exI [where x = "\<lparr>success = True, message = ''No runtime errors detected.'',
           errors = None\<rparr>"]) (simp add: quiet_run)
  then have a: "fst (main quiet_world ?sketch) = 0"
    using zero by simp
  note reported = C8_exit_code [of sample_world ?sketch, THEN conjunct2, THEN conjunct2,
      THEN conjunct2, THEN conjunct2, THEN conjunct1, THEN spec [of _ ?reported], THEN mp]
  have b: "fst (main sample_world ?sketch) = 1"
    by (rule reported) (simp add: sample_run)
  note usage = C8_exit_code [of sample_world "[''node'', ''check-error.js'']",
      THEN conjunct2, THEN conjunct2, THEN conjunct1, THEN mp]
  have c: "fst (main sample_world [''node'', ''check-error.js'']) = 1"
    by (rule usage) simp
  note missing = C8_exit_code [of sample_world "[''node'', ''check-error.js'', ''missing.html'']",
      THEN conjunct2, THEN conjunct2, THEN conjunct2, THEN conjunct1, THEN mp]
  have d: "fst (main sample_world [''node'', ''check-error.js'', ''missing.html'']) = 1"
    by (rule missing) (simp add: sample_world_simps)
  note unhandled = C8_exit_code [of "quiet_world\<lparr>close := ([], Some sample_failure)\<rparr>" ?sketch,
      THEN conjunct2, THEN conjunct2, THEN conjunct2, THEN conjunct2, THEN conjunct2,
      THEN conjunct1, THEN spec [of _ "Rejected sample_failure"], THEN mp]
  have e: "fst (main (quiet_world\<lparr>close := ([], Some sample_failure)\<rparr>) ?sketch) = 1"
    by (rule unhandled) (simp add: close_rejects_run)
  note killed = C8_exit_code [of null_world ?sketch,
      THEN conjunct2, THEN conjunct2, THEN conjunct2, THEN conjunct2, THEN conjunct2,
      THEN conjunct1, THEN spec [of _ Killed], THEN mp]
  have f: "fst (main null_world ?sketch) = 1"
    by (rule killed) (simp add: null_run)
  from a b c d e f show ?thesis by (intro conjI)
qed



text \<open>
  C4. In a run that attaches the listeners, what is written to stderr is exactly the
  lines of the console messages that reach the live process, in order. So every such
  message of type \<open>error\<close> without the marker \<open>Failed to load resource\<close> is written as
  \<open>Console error: ...\<close>, every \<open>warning\<close> and \<open>log\<close> is written under its own prefix, and
  for a message of type \<open>error\<close> with the marker no such line is ever written. When the
  \<open>try\<close> block completes, \<open>consoleErrors\<close> holds exactly the entries of the error messages
  without the marker; in a run that completes each of them is in \<open>result.errors\<close>; and
  every entry of type \<open>console.error\<close> of a returned \<open>result.errors\<close> is the entry of such a
  message: one with the marker, a warning or a log is never there.
\<close>

theorem C4_console_messages:
  assumes "existsSync w p" and "launch w = None" and "newPage w = None"
  shows "stderr_writes (snd (evaluateP5Sketch w p)) = console_lines (heard (delivered w p))
   \<and> (\<forall>msg. Console msg \<in> set (heard (delivered w p)) \<and> msg_type msg = ''error''
         \<and> \<not> includes_str (msg_text msg) ''Failed to load resource'' \<longrightarrow>
       ''Console error: '' @ msg_text msg @ [CHR 0x0A]
         \<in> set (stderr_writes (snd (evaluateP5Sketch w p))))
   \<and> (\<forall>msg. Console msg \<in> set (heard (delivered w p)) \<and> msg_type msg = ''warning'' \<longrightarrow>
       ''Console warning: '' @ msg_text msg @ [CHR 0x0A]
         \<in> set (stderr_writes (snd (evaluateP5Sketch w p))))
   \<and> (\<forall>msg. Console msg \<in> set (heard (delivered w p)) \<and> msg_type msg = ''log'' \<longrightarrow>
       ''Console log: '' @ msg_text msg @ [CHR 0x0A]
         \<in> set (stderr_writes (snd (evaluateP5Sketch w p))))
   \<and> (\<forall>msg. msg_type msg = ''error''
         \<and> includes_str (msg_text msg) ''Failed to load resource'' \<longrightarrow>
       ''Console error: '' @ msg_text msg @ [CHR 0x0A]
         \<notin> set (stderr_writes (snd (evaluateP5Sketch w p))))
   \<and> (\<forall>st0. \<not> st_killed st0 \<longrightarrow>
       st_consoleErrors (snd (snd (try_block w (''file://'' @ resolve w p) st0))) =
         st_consoleErrors st0 @ console_errors (heard (tried w p)))
   \<and> (\<forall>msg. snd (goto w (''file://'' @ resolve w p)) = None \<and> snd (close w) = None
         \<and> PageError Nullish \<notin> set (delivered w p)
         \<and> Console msg \<in> set (observed w p) \<and> msg_type msg = ''error''
         \<and> \<not> includes_str (msg_text msg) ''Failed to load resource'' \<longrightarrow>
       (\<exists>es. fst (evaluateP5Sketch w p) =
           Inr \<lparr>success = False, message = ''Runtime errors detected.'', errors = Some es\<rparr>
         \<and> \<lparr>etype = ''console.error'', emessage = Some (msg_text msg), estack = None\<rparr>
             \<in> set es))
   \<and> (\<forall>r es e. fst (evaluateP5Sketch w p) = Inr r \<and> errors r = Some es \<and> e \<in> set es
         \<and> etype e = ''console.error'' \<longrightarrow>
       (\<exists>msg. Console msg \<in> set (observed w p) \<and> msg_type msg = ''error''
          \<and> \<not> includes_str (msg_text msg) ''Failed to load resource''
          \<and> e = \<lparr>etype = ''console.error'', emessage = Some (msg_text msg),
                  estack = None\<rparr>))"
proof -
  let ?out = "stderr_writes (snd (evaluateP5Sketch w p))"
  have out: "?out = console_lines (heard (delivered w p))"
    by (rule evaluate_stderr_heard [OF assms])
  have written: "set (console_line msg) \<subseteq> set ?out" if "Console msg \<in> set (heard (delivered w p))"
    for msg
    unfolding out using that by (rule console_lines_mem)
  have e: "\<forall>msg. Console msg \<in> set (heard (delivered w p)) \<and> msg_type msg = ''error''
         \<and> \<not> includes_str (msg_text msg) ''Failed to load resource'' \<longrightarrow>
       ''Console error: '' @ msg_text msg @ [CHR 0x0A] \<in> set ?out"
  proof (intro allI impI)
    fix msg
    assume a: "Console msg \<in> set (heard (delivered w p)) \<and> msg_type msg = ''error''
         \<and> \<not> includes_str (msg_text msg) ''Failed to load resource''"
    then have "set (console_line msg) \<subseteq> set ?out" by (intro written) simp
    with a show "''Console error: '' @ msg_text msg @ [CHR 0x0A] \<in> set ?out"
      by (auto simp: console_line_def)
  qed
  have wn: "\<forall>msg. Console msg \<in> set (heard (delivered w p)) \<and> msg_type msg = ''warning'' \<longrightarrow>
       ''Console warning: '' @ msg_text msg @ [CHR 0x0A] \<in> set ?out"
  proof (intro allI impI)
    fix msg
    assume a: "Console msg \<in> set (heard (delivered w p)) \<and> msg_type msg = ''warning''"
    then have "set (console_line msg) \<subseteq> set ?out" by (intro written) simp
    with a show "''Console warning: '' @ msg_text msg @ [CHR 0x0A] \<in> set ?out"
      by (auto simp: console_line_def)
  qed
  have lg: "\<forall>msg. Console msg \<in> set (heard (delivered w p)) \<and> msg_type msg = ''log'' \<longrightarrow>
       ''Console log: '' @ msg_text msg @ [CHR 0x0A] \<in> set ?out"
  proof (intro allI impI)
    fix msg
    assume a: "Console msg \<in> set (heard (delivered w p)) \<and> msg_type msg = ''log''"
    then have "set (console_line msg) \<subseteq> set ?out" by (intro written) simp
    with a show "''Console log: '' @ msg_text msg @ [CHR 0x0A] \<in> set ?out"
      by (auto simp: console_line_def)
  qed
  have dropped: "\<forall>msg. msg_type msg = ''error''
         \<and> includes_str (msg_text msg) ''Failed to load resource'' \<longrightarrow>
       ''Console error: '' @ msg_text msg @ [CHR 0x0A] \<notin> set ?out"
  proof (intro allI impI notI)
    fix msg
    assume m: "msg_type msg = ''error''
         \<and> includes_str (msg_text msg) ''Failed to load resource''"
    assume "''Console error: '' @ msg_text msg @ [CHR 0x0A] \<in> set ?out"
    then obtain msg' where
      "''Console error: '' @ msg_text msg @ [CHR 0x0A] \<in> set (console_line msg')"
      unfolding out using console_lines_origin by blast
    from console_line_error [OF this] m show False by simp
  qed
  have buffered: "\<forall>st0. \<not> st_killed st0 \<longrightarrow>
       st_consoleErrors (snd (snd (try_block w (''file://'' @ resolve w p) st0))) =
         st_consoleErrors st0 @ console_errors (heard (tried w p))"
  proof (intro allI impI)
    fix st0 :: state
    assume k: "\<not> st_killed st0"
    from try_block_heard(6) [OF assms(2,3) k]
    show "st_consoleErrors (snd (snd (try_block w (''file://'' @ resolve w p) st0))) =
         st_consoleErrors st0 @ console_errors (heard (tried w p))" .
  qed
  have reported: "\<forall>msg. snd (goto w (''file://'' @ resolve w p)) = None \<and> snd (close w) = None
         \<and> PageError Nullish \<notin> set (delivered w p)
         \<and> Console msg \<in> set (observed w p) \<and> msg_type msg = ''error''
         \<and> \<not> includes_str (msg_text msg) ''Failed to load resource'' \<longrightarrow>
       (\<exists>es. fst (evaluateP5Sketch w p) =
           Inr \<lparr>success = False, message = ''Runtime errors detected.'', errors = Some es\<rparr>
         \<and> \<lparr>etype = ''console.error'', emessage = Some (msg_text msg), estack = None\<rparr>
             \<in> set es)"
  proof (intro allI impI)
    fix msg
    assume a: "snd (goto w (''file://'' @ resolve w p)) = None \<and> snd (close w) = None
         \<and> PageError Nullish \<notin> set (delivered w p)
         \<and> Console msg \<in> set (observed w p) \<and> msg_type msg = ''error''
         \<and> \<not> includes_str (msg_text msg) ''Failed to load resource''"
    then have "\<lparr>etype = ''console.error'', emessage = Some (msg_text msg), estack = None\<rparr>
        \<in> set (page_errors (observed w p) @ console_errors (observed w p))"
      by (simp add: console_errors_mem)
    with a assms show "\<exists>es. fst (evaluateP5Sketch w p) =
           Inr \<lparr>success = False, message = ''Runtime errors detected.'', errors = Some es\<rparr>
         \<and> \<lparr>etype = ''console.error'', emessage = Some (msg_text msg), estack = None\<rparr>
             \<in> set es"
      by (intro evaluate_complete) simp_all
  qed
  have only: "\<forall>r es e. fst (evaluateP5Sketch w p) = Inr r \<and> errors r = Some es \<and> e \<in> set es
         \<and> etype e = ''console.error'' \<longrightarrow>
       (\<exists>msg. Console msg \<in> set (observed w p) \<and> msg_type msg = ''error''
          \<and> \<not> includes_str (msg_text msg) ''Failed to load resource''
          \<and> e = \<lparr>etype = ''console.error'', emessage = Some (msg_text msg),
                  estack = None\<rparr>)"
  proof (intro allI impI)
    fix r es e
    assume a: "fst (evaluateP5Sketch w p) = Inr r \<and> errors r = Some es \<and> e \<in> set es
         \<and> etype e = ''console.error''"
    then have r: "fst (evaluateP5Sketch w p) = Inr r" by simp
    from evaluate_Inr_cases [OF r] a
    have "e \<in> set (page_errors (observed w p)) \<or> e \<in> set (console_errors (observed w p))"
      by (auto split: if_splits)
    with a have "e \<in> set (console_errors (observed w p))"
      using page_errors_etype [of e "observed w p"] by auto
    then show "\<exists>msg. Console msg \<in> set (observed w p) \<and> msg_type msg = ''error''
          \<and> \<not> includes_str (msg_text msg) ''Failed to load resource''
          \<and> e = \<lparr>etype = ''console.error'', emessage = Some (msg_text msg),
                  estack = None\<rparr>"
      by (rule console_errors_origin)
  qed
  from out e wn lg dropped buffered reported only show ?thesis
    by (intro conjI)
qed

theorem C4_console_messages_witness:
  "stderr_writes (snd (evaluateP5Sketch sample_world ''sketch.html'')) =
     [''Console error: boom'' @ [CHR 0x0A], ''Console warning: slow'' @ [CHR 0x0A],
      ''Console log: hi'' @ [CHR 0x0A]]
   \<and> ''Console error: Failed to load resource: y'' @ [CHR 0x0A]
        \<notin> set (stderr_writes (snd (evaluateP5Sketch sample_world ''sketch.html'')))
   \<and> (\<exists>es. fst (evaluateP5Sketch sample_world ''sketch.html'') =
          Inr \<lparr>success = False, message = ''Runtime errors detected.'', errors = Some es\<rparr>
        \<and> \<lparr>etype = ''console.error'', emessage = Some ''boom'', estack = None\<rparr> \<in> set es)"
proof -
  let ?benign = "\<lparr>msg_type = ''error'', msg_text = ''Failed to load resource: y''\<rparr>"
  let ?boom = "\<lparr>msg_type = ''error'', msg_text = ''boom''\<rparr>"
  have h: "existsSync sample_world ''sketch.html''" "launch sample_world = None"
    "newPage sample_world = None"
    by (simp_all add: sample_world_simps)
  note c4 = C4_console_messages [OF h]
  have "heard (delivered sample_world ''sketch.html'') = delivered sample_world ''sketch.html''"
    by (rule heard_all) (rule sample_world_simps)
  with c4 [THEN conjunct1]
  have a: "stderr_writes (snd (evaluateP5Sketch sample_world ''sketch.html'')) =
     [''Console error: boom'' @ [CHR 0x0A], ''Console warning: slow'' @ [CHR 0x0A],
      ''Console log: hi'' @ [CHR 0x0A]]"
    by (simp only: sample_lines)
  note dropped = c4 [THEN conjunct2, THEN conjunct2, THEN conjunct2, THEN conjunct2,
      THEN conjunct1, THEN spec [of _ ?benign], THEN mp]
  have "''Console error: '' @ msg_text ?benign @ [CHR 0x0A]
        \<notin> set (stderr_writes (snd (evaluateP5Sketch sample_world ''sketch.html'')))"
    by (rule dropped) simp
  then have b: "''Console error: Failed to load resource: y'' @ [CHR 0x0A]
        \<notin> set (stderr_writes (snd (evaluateP5Sketch sample_world ''sketch.html'')))"
    by simp
  note reported = c4 [THEN conjunct2, THEN conjunct2, THEN conjunct2, THEN conjunct2,
      THEN conjunct2, THEN conjunct2, THEN conjunct1, THEN spec [of _ ?boom], THEN mp]
  have "\<exists>es. fst (evaluateP5Sketch sample_world ''sketch.html'') =
          Inr \<lparr>success = False, message = ''Runtime errors detected.'', errors = Some es\<rparr>
        \<and> \<lparr>etype = ''console.error'', emessage = Some (msg_text ?boom), estack = None\<rparr>
            \<in> set es"
    by (rule reported) (simp add: sample_world_simps, simp add: observed_def sample_world_def)
  then have c: "\<exists>es. fst (evaluateP5Sketch sample_world ''sketch.html'') =
          Inr \<lparr>success = False, message = ''Runtime errors detected.'', errors = Some es\<rparr>
        \<and> \<lparr>etype = ''console.error'', emessage = Some ''boom'', estack = None\<rparr> \<in> set es"
    by simp
  from a b c show ?thesis by (intro conjI)
qed

text \<open>
  C6, as the code has it. The browser is launched exactly once when the file exists and
  not at all when it does not (the early return of line 13). Whenever the function
  returns a result, whatever state it reached (a failing \<open>newPage\<close>, a failing navigation,
  a report), a session was opened exactly when the file exists and the launch succeeded,
  every session opened was closed, exactly once, by the last browser call of the run, and
  none is left open. And the function does return a result when \<open>browser.close()\<close>
  resolves and no listener throws.
\<close>

theorem C6_sessions_opened_and_closed:
  "count_list (snd (evaluateP5Sketch w p)) Launch = (if existsSync w p then 1 else 0)
   \<and> (\<forall>r. fst (evaluateP5Sketch w p) = Inr r \<longrightarrow>
        sessions_opened w (snd (evaluateP5Sketch w p)) =
          (if existsSync w p \<and> launch w = None then 1 else 0)
        \<and> sessions_closed w (snd (evaluateP5Sketch w p)) =
            sessions_opened w (snd (evaluateP5Sketch w p))
        \<and> count_list (snd (evaluateP5Sketch w p)) Close =
            sessions_opened w (snd (evaluateP5Sketch w p))
        \<and> (existsSync w p \<and> launch w = None \<longrightarrow>
             last (calls (snd (evaluateP5Sketch w p))) = Close))
   \<and> ((existsSync w p \<and> launch w = None \<longrightarrow>
         snd (close w) = None
         \<and> (newPage w = None \<longrightarrow> PageError Nullish \<notin> set (delivered w p))) \<longrightarrow>
       (\<exists>r. fst (evaluateP5Sketch w p) = Inr r))"
proof (intro conjI allI impI)
  let ?tr = "snd (evaluateP5Sketch w p)"
  have "count_list ?tr Launch = count_list (calls ?tr) Launch"
    by (simp add: count_calls)
  also have "\<dots> = (if existsSync w p then 1 else 0)"
    using evaluate_calls_shape [of w p] by auto
  finally show "count_list ?tr Launch = (if existsSync w p then 1 else 0)" .
next
  fix r
  let ?tr = "snd (evaluateP5Sketch w p)"
  assume "fst (evaluateP5Sketch w p) = Inr r"
  then have "\<exists>r. fst (evaluateP5Sketch w p) = Inr r" by (rule exI)
  then have res: "existsSync w p \<and> launch w = None \<longrightarrow>
      snd (close w) = None
      \<and> (newPage w = None \<longrightarrow> PageError Nullish \<notin> set (delivered w p))"
    by (simp only: evaluate_resolves_iff)
  then have "existsSync w p \<and> launch w = None \<and> newPage w = None \<longrightarrow>
           PageError Nullish \<notin> set (delivered w p)" by auto
  note c = evaluate_calls [OF this]
  have cnt: "count_list ?tr Launch = count_list (calls ?tr) Launch"
    "count_list ?tr Close = count_list (calls ?tr) Close"
    by (simp_all add: count_calls)
  show "sessions_opened w ?tr = (if existsSync w p \<and> launch w = None then 1 else 0)"
    unfolding sessions_opened_def cnt c by simp
  show "sessions_closed w ?tr = sessions_opened w ?tr"
    unfolding sessions_opened_def sessions_closed_def cnt c using res by auto
  show "count_list ?tr Close = sessions_opened w ?tr"
    unfolding sessions_opened_def cnt c by auto
  show "last (calls ?tr) = Close" if "existsSync w p \<and> launch w = None"
    unfolding c using that by simp
next
  assume "existsSync w p \<and> launch w = None \<longrightarrow>
         snd (close w) = None
         \<and> (newPage w = None \<longrightarrow> PageError Nullish \<notin> set (delivered w p))"
  then show "\<exists>r. fst (evaluateP5Sketch w p) = Inr r"
    by (simp only: evaluate_resolves_iff)
qed

theorem C6_sessions_opened_and_closed_witness:
  "count_list (snd (evaluateP5Sketch sample_world ''sketch.html'')) Launch = 1
   \<and> sessions_opened sample_world (snd (evaluateP5Sketch sample_world ''sketch.html'')) = 1
   \<and> sessions_closed sample_world (snd (evaluateP5Sketch sample_world ''sketch.html'')) = 1
   \<and> sessions_opened timeout_world (snd (evaluateP5Sketch timeout_world ''sketch.html'')) = 1
   \<and> sessions_closed timeout_world (snd (evaluateP5Sketch timeout_world ''sketch.html'')) = 1
   \<and> last (calls (snd (evaluateP5Sketch timeout_world ''sketch.html''))) = Close"
proof -
  note s = C6_sessions_opened_and_closed [of sample_world "''sketch.html''"]
  note t = C6_sessions_opened_and_closed [of timeout_world "''sketch.html''"]
  from s [THEN conjunct1]
  have a: "count_list (snd (evaluateP5Sketch sample_world ''sketch.html'')) Launch = 1"
    by (simp add: sample_world_simps)
  from s [THEN conjunct2, THEN conjunct1, THEN spec, THEN mp, OF sample_run]
  have b: "sessions_opened sample_world (snd (evaluateP5Sketch sample_world ''sketch.html'')) = 1
   \<and> sessions_closed sample_world (snd (evaluateP5Sketch sample_world ''sketch.html'')) = 1"
    by (simp add: sample_world_simps)
  from t [THEN conjunct2, THEN conjunct1, THEN spec, THEN mp, OF timeout_run]
  have c: "sessions_opened timeout_world (snd (evaluateP5Sketch timeout_world ''sketch.html'')) = 1
   \<and> sessions_closed timeout_world (snd (evaluateP5Sketch timeout_world ''sketch.html'')) = 1
   \<and> last (calls (snd (evaluateP5Sketch timeout_world ''sketch.html''))) = Close"
    by (simp add: timeout_world_simps)
  from a b c show ?thesis by simp
qed

text \<open>
  C6 as stated (every invocation opens exactly one session and closes it exactly once)
  fails: for a missing file the function returns and nothing was launched; when the
  launch rejects the function returns, no session was opened and \<open>close\<close> was never called.
\<close>

theorem C6_counterexample:
  "fst (evaluateP5Sketch sample_world ''missing.html'') =
     Inr \<lparr>success = False, message = ''HTML file not found: missing.html'', errors = None\<rparr>
   \<and> count_list (snd (evaluateP5Sketch sample_world ''missing.html'')) Launch = 0
   \<and> sessions_opened sample_world (snd (evaluateP5Sketch sample_world ''missing.html'')) = 0
   \<and> sessions_opened (sample_world\<lparr>launch := Some sample_failure\<rparr>)
        (snd (evaluateP5Sketch (sample_world\<lparr>launch := Some sample_failure\<rparr>)
          ''sketch.html'')) = 0
   \<and> count_list (snd (evaluateP5Sketch (sample_world\<lparr>launch := Some sample_failure\<rparr>)
        ''sketch.html'')) Close = 0"
proof -
  have "\<not> existsSync sample_world ''missing.html''"
    by (simp add: sample_world_simps)
  then have a: "evaluateP5Sketch sample_world ''missing.html'' =
      (Inr \<lparr>success = False, message = ''HTML file not found: '' @ ''missing.html'',
            errors = None\<rparr>,
       [ConsoleError [Str (''Error: HTML file not found at '' @ ''missing.html'')]])"
    by (rule evaluate_missing)
  let ?w = "sample_world\<lparr>launch := Some sample_failure\<rparr>"
  have "calls (snd (evaluateP5Sketch ?w ''sketch.html'')) = [Launch]"
    by (rule evaluate_launch_fails(2)) (simp_all add: sample_world_def)
  then have "count_list (calls (snd (evaluateP5Sketch ?w ''sketch.html''))) Close = 0"
    by simp
  then have b: "count_list (snd (evaluateP5Sketch ?w ''sketch.html'')) Close = 0"
    by (simp add: count_calls)
  have c: "sessions_opened ?w (snd (evaluateP5Sketch ?w ''sketch.html'')) = 0"
    by (simp add: sessions_opened_def)
  from a b c show ?thesis by (simp add: sessions_opened_def)
qed

text \<open>
  C9. The result for a missing file has no \<open>errors\<close> property although its \<open>success\<close>
  is false. The other failures do produce a result with a non-empty \<open>errors\<close>: a rejected
  launch, page creation or navigation gives the result with one \<open>puppeteer_error\<close> entry,
  and a run that collected something gives the result \<open>Runtime errors detected.\<close> with the
  entries collected (in both cases when no listener throws and \<open>browser.close()\<close>
  resolves, that is, when a result is returned at all). And every result with
  \<open>success = false\<close> returned for an existing file carries a non-empty \<open>errors\<close>.
\<close>

theorem C9_errors_field_optional:
  "(\<not> existsSync w p \<longrightarrow>
      fst (evaluateP5Sketch w p) =
        Inr \<lparr>success = False, message = ''HTML file not found: '' @ p, errors = None\<rparr>)
   \<and> (\<forall>e. existsSync w p
         \<and> (launch w = Some e
            \<or> (launch w = None \<and> newPage w = Some e)
            \<or> (launch w = None \<and> newPage w = None
                \<and> snd (goto w (''file://'' @ resolve w p)) = Some e))
         \<and> (launch w = None \<longrightarrow> snd (close w) = None)
         \<and> (launch w = None \<and> newPage w = None \<longrightarrow>
              PageError Nullish \<notin> set (delivered w p)) \<longrightarrow>
        (\<exists>es. fst (evaluateP5Sketch w p) =
            Inr \<lparr>success = False,
                 message = ''Puppeteer or navigation error: '' @ err_message e,
                 errors = Some es\<rparr>
          \<and> es \<noteq> []))
   \<and> (existsSync w p \<and> launch w = None \<and> newPage w = None
       \<and> snd (goto w (''file://'' @ resolve w p)) = None \<and> snd (close w) = None
       \<and> PageError Nullish \<notin> set (delivered w p)
       \<and> page_errors (observed w p) @ console_errors (observed w p) \<noteq> [] \<longrightarrow>
        (\<exists>es. fst (evaluateP5Sketch w p) =
            Inr \<lparr>success = False, message = ''Runtime errors detected.'', errors = Some es\<rparr>
          \<and> es \<noteq> []))
   \<and> (\<forall>r. existsSync w p \<and> fst (evaluateP5Sketch w p) = Inr r \<and> \<not> success r \<longrightarrow>
          (\<exists>es. errors r = Some es \<and> es \<noteq> []))"
proof (intro conjI impI allI)
  assume "\<not> existsSync w p"
  then show "fst (evaluateP5Sketch w p) =
        Inr \<lparr>success = False, message = ''HTML file not found: '' @ p, errors = None\<rparr>"
    by (simp add: evaluate_missing)
next
  fix e
  assume a: "existsSync w p
         \<and> (launch w = Some e
            \<or> (launch w = None \<and> newPage w = Some e)
            \<or> (launch w = None \<and> newPage w = None
                \<and> snd (goto w (''file://'' @ resolve w p)) = Some e))
         \<and> (launch w = None \<longrightarrow> snd (close w) = None)
         \<and> (launch w = None \<and> newPage w = None \<longrightarrow>
              PageError Nullish \<notin> set (delivered w p))"
  then have ex: "existsSync w p" by simp
  let ?es = "[\<lparr>etype = ''puppeteer_error'', emessage = Some (err_message e),
               estack = err_stack e\<rparr>]"
  from a consider
    (l) "launch w = Some e"
    | (n) "launch w = None" "newPage w = Some e"
    | (g) "launch w = None" "newPage w = None"
          "snd (goto w (''file://'' @ resolve w p)) = Some e"
    by (elim disjE conjE)
  then have "fst (evaluateP5Sketch w p) =
            Inr \<lparr>success = False,
                 message = ''Puppeteer or navigation error: '' @ err_message e,
                 errors = Some ?es\<rparr>"
  proof cases
    case l
    from evaluate_launch_fails(1) [OF ex l] show ?thesis .
  next
    case n
    from evaluate_newPage_fails(1) [OF ex n] a n show ?thesis by simp
  next
    case g
    from g a have nn: "PageError Nullish \<notin> set (delivered w p)" by simp
    from evaluate_goto_fails(1) [OF ex g nn] a g show ?thesis by simp
  qed
  then show "\<exists>es. fst (evaluateP5Sketch w p) =
            Inr \<lparr>success = False,
                 message = ''Puppeteer or navigation error: '' @ err_message e,
                 errors = Some es\<rparr>
          \<and> es \<noteq> []"
    by (intro exI [where x = ?es]) simp
next
  assume a: "existsSync w p \<and> launch w = None \<and> newPage w = None
       \<and> snd (goto w (''file://'' @ resolve w p)) = None \<and> snd (close w) = None
       \<and> PageError Nullish \<notin> set (delivered w p)
       \<and> page_errors (observed w p) @ console_errors (observed w p) \<noteq> []"
  let ?es = "page_errors (observed w p) @ console_errors (observed w p)"
  from a have "existsSync w p" "launch w = None" "newPage w = None"
    "snd (goto w (''file://'' @ resolve w p)) = None"
    "PageError Nullish \<notin> set (delivered w p)" by simp_all
  from evaluate_ok(1) [OF this] a
  have "fst (evaluateP5Sketch w p) =
      Inr \<lparr>success = False, message = ''Runtime errors detected.'', errors = Some ?es\<rparr>"
    by simp
  with a show "\<exists>es. fst (evaluateP5Sketch w p) =
            Inr \<lparr>success = False, message = ''Runtime errors detected.'', errors = Some es\<rparr>
          \<and> es \<noteq> []"
    by (intro exI [where x = ?es]) simp
next
  fix r
  assume a: "existsSync w p \<and> fst (evaluateP5Sketch w p) = Inr r \<and> \<not> success r"
  then have r: "fst (evaluateP5Sketch w p) = Inr r" by simp
  from evaluate_Inr_cases [OF r] a show "\<exists>es. errors r = Some es \<and> es \<noteq> []"
    by (auto split: if_splits)
qed

theorem C9_errors_field_optional_witness:
  "fst (evaluateP5Sketch sample_world ''missing.html'') =
     Inr \<lparr>success = False, message = ''HTML file not found: missing.html'', errors = None\<rparr>
   \<and> (\<exists>es. fst (evaluateP5Sketch (sample_world\<lparr>launch := Some sample_failure\<rparr>)
              ''sketch.html'') =
          Inr \<lparr>success = False,
               message = ''Puppeteer or navigation error: Navigation timeout of 30000 ms exceeded'',
               errors = Some es\<rparr>
        \<and> es \<noteq> [])
   \<and> (\<exists>es. fst (evaluateP5Sketch timeout_world ''sketch.html'') =
          Inr \<lparr>success = False,
               message = ''Puppeteer or navigation error: Navigation timeout of 30000 ms exceeded'',
               errors = Some es\<rparr>
        \<and> es \<noteq> [])
   \<and> (\<exists>es. fst (evaluateP5Sketch sample_world ''sketch.html'') =
          Inr \<lparr>success = False, message = ''Runtime errors detected.'', errors = Some es\<rparr>
        \<and> es \<noteq> [])"
proof -
  let ?lw = "sample_world\<lparr>launch := Some sample_failure\<rparr>"
  note missing = C9_errors_field_optional [of sample_world "''missing.html''",
      THEN conjunct1, THEN mp]
  have "fst (evaluateP5Sketch sample_world ''missing.html'') =
     Inr \<lparr>success = False, message = ''HTML file not found: '' @ ''missing.html'',
          errors = None\<rparr>"
    by (rule missing) (simp add: sample_world_simps)
  then have a: "fst (evaluateP5Sketch sample_world ''missing.html'') =
     Inr \<lparr>success = False, message = ''HTML file not found: missing.html'', errors = None\<rparr>"
    by simp
  note launch_fails = C9_errors_field_optional [of ?lw "''sketch.html''",
      THEN conjunct2, THEN conjunct1, THEN spec [of _ sample_failure], THEN mp]
  have "\<exists>es. fst (evaluateP5Sketch ?lw ''sketch.html'') =
          Inr \<lparr>success = False,
               message = ''Puppeteer or navigation error: '' @ err_message sample_failure,
               errors = Some es\<rparr>
        \<and> es \<noteq> []"
    by (rule launch_fails) (simp add: sample_world_def)
  then have b: "\<exists>es. fst (evaluateP5Sketch ?lw ''sketch.html'') =
          Inr \<lparr>success = False,
               message = ''Puppeteer or navigation error: Navigation timeout of 30000 ms exceeded'',
               errors = Some es\<rparr>
        \<and> es \<noteq> []"
    by (simp add: sample_failure_def)
  note goto_fails = C9_errors_field_optional [of timeout_world "''sketch.html''",
      THEN conjunct2, THEN conjunct1, THEN spec [of _ sample_failure], THEN mp]
  have "\<exists>es. fst (evaluateP5Sketch timeout_world ''sketch.html'') =
          Inr \<lparr>success = False,
               message = ''Puppeteer or navigation error: '' @ err_message sample_failure,
               errors = Some es\<rparr>
        \<and> es \<noteq> []"
    by (rule goto_fails) (simp add: timeout_world_simps)
  then have c: "\<exists>es. fst (evaluateP5Sketch timeout_world ''sketch.html'') =
          Inr \<lparr>success = False,
               message = ''Puppeteer or navigation error: Navigation timeout of 30000 ms exceeded'',
               errors = Some es\<rparr>
        \<and> es \<noteq> []"
    by (simp add: sample_failure_def)
  note collected = C9_errors_field_optional [of sample_world "''sketch.html''",
      THEN conjunct2, THEN conjunct2, THEN conjunct1, THEN mp]
  have d: "\<exists>es. fst (evaluateP5Sketch sample_world ''sketch.html'') =
          Inr \<lparr>success = False, message = ''Runtime errors detected.'', errors = Some es\<rparr>
        \<and> es \<noteq> []"
    by (rule collected) (simp add: sample_world_simps sample_collected)
  from a b c d show ?thesis by (intro conjI)
qed




end
